theory Spec2Isabelle
  imports Complex_Main
begin

section \<open>Python strings\<close>

text \<open>
  A Python \<open>str\<close> that a client supplies is a list of Unicode code points. The strings
  the program writes itself (language codes, messages, file names) are ASCII literals
  and stay of type \<open>string\<close>; \<open>ustr\<close> reads such a literal as a Python \<open>str\<close>.
\<close>

type_synonym pystr = "nat list"

definition ustr :: "string \<Rightarrow> pystr" where
  "ustr s = map of_char s"

subsection \<open>The character database\<close>

text \<open>
  The character tables are those of CPython 3.11 (Unicode 14.0.0). \<open>space_ranges\<close> holds
  the code points for which \<open>str.isspace\<close> is true, which are also the separators of
  \<open>str.split()\<close>. The larger tables hold their ranges in ascending order, arranged as
  search trees: \<open>alnum_ranges\<close> the code points for which \<open>str.isalnum\<close> is true,
  \<open>cased_ranges\<close> and \<open>case_ignorable_ranges\<close> the characters with the properties \<open>Cased\<close>
  and \<open>Case_Ignorable\<close>, and \<open>lower_table\<close> the one-character lowercase mappings: an entry
  \<open>(lo, hi, step, target)\<close> maps \<open>lo, lo + step, ...\<close> up to \<open>hi\<close> to
  \<open>target, target + step, ...\<close>.
\<close>

datatype 'a search_tree = Leaf | Node "'a search_tree" 'a "'a search_tree"

definition space_ranges :: "(nat \<times> nat) list" where
  "space_ranges =
     [(9, 13), (28, 32), (133, 133), (160, 160), (5760, 5760), (8192, 8202), (8232, 8233), (8239, 8239), (8287, 8287), (12288, 12288)]"

definition alnum_ranges :: "(nat \<times> nat) search_tree" where
  "alnum_ranges =
     Node (Node (Node (Node (Node (Node (Node (Node (Node (Node Leaf (48, 57) Leaf) (65, 90) Leaf)
     (97, 122) (Node (Node Leaf (170, 170) Leaf) (178, 179) Leaf)) (181, 181) (Node (Node (Node
     Leaf (185, 186) Leaf) (188, 190) Leaf) (192, 214) (Node (Node Leaf (216, 246) Leaf)
     (248, 705) Leaf))) (710, 721) (Node (Node (Node (Node Leaf (736, 740) Leaf) (748, 748) Leaf)
     (750, 750) (Node (Node Leaf (880, 884) Leaf) (886, 887) Leaf)) (890, 893) (Node (Node (Node
     Leaf (895, 895) Leaf) (902, 902) Leaf) (904, 906) (Node Leaf (908, 908) Leaf)))) (910, 929)
     (Node (Node (Node (Node (Node Leaf (931, 1013) Leaf) (1015, 1153) Leaf) (1162, 1327) (Node
     (Node Leaf (1329, 1366) Leaf) (1369, 1369) Leaf)) (1376, 1416) (Node (Node (Node Leaf
     (1488, 1514) Leaf) (1519, 1522) Leaf) (1568, 1610) (Node (Node Leaf (1632, 1641) Leaf)
     (1646, 1647) Leaf))) (1649, 1747) (Node (Node (Node (Node Leaf (1749, 1749) Leaf)
     (1765, 1766) Leaf) (1774, 1788) (Node (Node Leaf (1791, 1791) Leaf) (1808, 1808) Leaf))
     (1810, 1839) (Node (Node (Node Leaf (1869, 1957) Leaf) (1969, 1969) Leaf) (1984, 2026) (Node
     Leaf (2036, 2037) Leaf))))) (2042, 2042) (Node (Node (Node (Node (Node (Node Leaf
     (2048, 2069) Leaf) (2074, 2074) Leaf) (2084, 2084) (Node (Node Leaf (2088, 2088) Leaf)
     (2112, 2136) Leaf)) (2144, 2154) (Node (Node (Node Leaf (2160, 2183) Leaf) (2185, 2190) Leaf)
     (2208, 2249) (Node (Node Leaf (2308, 2361) Leaf) (2365, 2365) Leaf))) (2384, 2384) (Node
     (Node (Node (Node Leaf (2392, 2401) Leaf) (2406, 2415) Leaf) (2417, 2432) (Node (Node Leaf
     (2437, 2444) Leaf) (2447, 2448) Leaf)) (2451, 2472) (Node (Node (Node Leaf (2474, 2480) Leaf)
     (2482, 2482) Leaf) (2486, 2489) (Node Leaf (2493, 2493) Leaf)))) (2510, 2510) (Node (Node
     (Node (Node (Node Leaf (2524, 2525) Leaf) (2527, 2529) Leaf) (2534, 2545) (Node (Node Leaf
     (2548, 2553) Leaf) (2556, 2556) Leaf)) (2565, 2570) (Node (Node (Node Leaf (2575, 2576) Leaf)
     (2579, 2600) Leaf) (2602, 2608) (Node (Node Leaf (2610, 2611) Leaf) (2613, 2614) Leaf)))
     (2616, 2617) (Node (Node (Node (Node Leaf (2649, 2652) Leaf) (2654, 2654) Leaf) (2662, 2671)
     (Node (Node Leaf (2674, 2676) Leaf) (2693, 2701) Leaf)) (2703, 2705) (Node (Node (Node Leaf
     (2707, 2728) Leaf) (2730, 2736) Leaf) (2738, 2739) (Node Leaf (2741, 2745) Leaf))))))
     (2749, 2749) (Node (Node (Node (Node (Node (Node (Node Leaf (2768, 2768) Leaf) (2784, 2785)
     Leaf) (2790, 2799) (Node (Node Leaf (2809, 2809) Leaf) (2821, 2828) Leaf)) (2831, 2832) (Node
     (Node (Node Leaf (2835, 2856) Leaf) (2858, 2864) Leaf) (2866, 2867) (Node (Node Leaf
     (2869, 2873) Leaf) (2877, 2877) Leaf))) (2908, 2909) (Node (Node (Node (Node Leaf
     (2911, 2913) Leaf) (2918, 2927) Leaf) (2929, 2935) (Node (Node Leaf (2947, 2947) Leaf)
     (2949, 2954) Leaf)) (2958, 2960) (Node (Node (Node Leaf (2962, 2965) Leaf) (2969, 2970) Leaf)
     (2972, 2972) (Node Leaf (2974, 2975) Leaf)))) (2979, 2980) (Node (Node (Node (Node (Node Leaf
     (2984, 2986) Leaf) (2990, 3001) Leaf) (3024, 3024) (Node (Node Leaf (3046, 3058) Leaf)
     (3077, 3084) Leaf)) (3086, 3088) (Node (Node (Node Leaf (3090, 3112) Leaf) (3114, 3129) Leaf)
     (3133, 3133) (Node (Node Leaf (3160, 3162) Leaf) (3165, 3165) Leaf))) (3168, 3169) (Node
     (Node (Node (Node Leaf (3174, 3183) Leaf) (3192, 3198) Leaf) (3200, 3200) (Node (Node Leaf
     (3205, 3212) Leaf) (3214, 3216) Leaf)) (3218, 3240) (Node (Node (Node Leaf (3242, 3251) Leaf)
     (3253, 3257) Leaf) (3261, 3261) (Node Leaf (3293, 3294) Leaf))))) (3296, 3297) (Node (Node
     (Node (Node (Node (Node Leaf (3302, 3311) Leaf) (3313, 3314) Leaf) (3332, 3340) (Node (Node
     Leaf (3342, 3344) Leaf) (3346, 3386) Leaf)) (3389, 3389) (Node (Node (Node Leaf (3406, 3406)
     Leaf) (3412, 3414) Leaf) (3416, 3425) (Node (Node Leaf (3430, 3448) Leaf) (3450, 3455)
     Leaf))) (3461, 3478) (Node (Node (Node (Node Leaf (3482, 3505) Leaf) (3507, 3515) Leaf)
     (3517, 3517) (Node (Node Leaf (3520, 3526) Leaf) (3558, 3567) Leaf)) (3585, 3632) (Node (Node
     (Node Leaf (3634, 3635) Leaf) (3648, 3654) Leaf) (3664, 3673) (Node Leaf (3713, 3714)
     Leaf)))) (3716, 3716) (Node (Node (Node (Node (Node Leaf (3718, 3722) Leaf) (3724, 3747)
     Leaf) (3749, 3749) (Node (Node Leaf (3751, 3760) Leaf) (3762, 3763) Leaf)) (3773, 3773) (Node
     (Node (Node Leaf (3776, 3780) Leaf) (3782, 3782) Leaf) (3792, 3801) (Node (Node Leaf
     (3804, 3807) Leaf) (3840, 3840) Leaf))) (3872, 3891) (Node (Node (Node (Node Leaf
     (3904, 3911) Leaf) (3913, 3948) Leaf) (3976, 3980) (Node (Node Leaf (4096, 4138) Leaf)
     (4159, 4169) Leaf)) (4176, 4181) (Node (Node (Node Leaf (4186, 4189) Leaf) (4193, 4193) Leaf)
     (4197, 4198) (Node Leaf (4206, 4208) Leaf))))))) (4213, 4225) (Node (Node (Node (Node (Node
     (Node (Node (Node Leaf (4238, 4238) Leaf) (4240, 4249) Leaf) (4256, 4293) (Node (Node Leaf
     (4295, 4295) Leaf) (4301, 4301) Leaf)) (4304, 4346) (Node (Node (Node Leaf (4348, 4680) Leaf)
     (4682, 4685) Leaf) (4688, 4694) (Node (Node Leaf (4696, 4696) Leaf) (4698, 4701) Leaf)))
     (4704, 4744) (Node (Node (Node (Node Leaf (4746, 4749) Leaf) (4752, 4784) Leaf) (4786, 4789)
     (Node (Node Leaf (4792, 4798) Leaf) (4800, 4800) Leaf)) (4802, 4805) (Node (Node (Node Leaf
     (4808, 4822) Leaf) (4824, 4880) Leaf) (4882, 4885) (Node Leaf (4888, 4954) Leaf))))
     (4969, 4988) (Node (Node (Node (Node (Node Leaf (4992, 5007) Leaf) (5024, 5109) Leaf)
     (5112, 5117) (Node (Node Leaf (5121, 5740) Leaf) (5743, 5759) Leaf)) (5761, 5786) (Node (Node
     (Node Leaf (5792, 5866) Leaf) (5870, 5880) Leaf) (5888, 5905) (Node (Node Leaf (5919, 5937)
     Leaf) (5952, 5969) Leaf))) (5984, 5996) (Node (Node (Node (Node Leaf (5998, 6000) Leaf)
     (6016, 6067) Leaf) (6103, 6103) (Node (Node Leaf (6108, 6108) Leaf) (6112, 6121) Leaf))
     (6128, 6137) (Node (Node (Node Leaf (6160, 6169) Leaf) (6176, 6264) Leaf) (6272, 6276) (Node
     Leaf (6279, 6312) Leaf))))) (6314, 6314) (Node (Node (Node (Node (Node (Node Leaf
     (6320, 6389) Leaf) (6400, 6430) Leaf) (6470, 6509) (Node (Node Leaf (6512, 6516) Leaf)
     (6528, 6571) Leaf)) (6576, 6601) (Node (Node (Node Leaf (6608, 6618) Leaf) (6656, 6678) Leaf)
     (6688, 6740) (Node (Node Leaf (6784, 6793) Leaf) (6800, 6809) Leaf))) (6823, 6823) (Node
     (Node (Node (Node Leaf (6917, 6963) Leaf) (6981, 6988) Leaf) (6992, 7001) (Node (Node Leaf
     (7043, 7072) Leaf) (7086, 7141) Leaf)) (7168, 7203) (Node (Node (Node Leaf (7232, 7241) Leaf)
     (7245, 7293) Leaf) (7296, 7304) (Node Leaf (7312, 7354) Leaf)))) (7357, 7359) (Node (Node
     (Node (Node (Node Leaf (7401, 7404) Leaf) (7406, 7411) Leaf) (7413, 7414) (Node (Node Leaf
     (7418, 7418) Leaf) (7424, 7615) Leaf)) (7680, 7957) (Node (Node (Node Leaf (7960, 7965) Leaf)
     (7968, 8005) Leaf) (8008, 8013) (Node (Node Leaf (8016, 8023) Leaf) (8025, 8025) Leaf)))
     (8027, 8027) (Node (Node (Node (Node Leaf (8029, 8029) Leaf) (8031, 8061) Leaf) (8064, 8116)
     (Node (Node Leaf (8118, 8124) Leaf) (8126, 8126) Leaf)) (8130, 8132) (Node (Node (Node Leaf
     (8134, 8140) Leaf) (8144, 8147) Leaf) (8150, 8155) (Node Leaf (8160, 8172) Leaf))))))
     (8178, 8180) (Node (Node (Node (Node (Node (Node (Node Leaf (8182, 8188) Leaf) (8304, 8305)
     Leaf) (8308, 8313) (Node (Node Leaf (8319, 8329) Leaf) (8336, 8348) Leaf)) (8450, 8450) (Node
     (Node (Node Leaf (8455, 8455) Leaf) (8458, 8467) Leaf) (8469, 8469) (Node (Node Leaf
     (8473, 8477) Leaf) (8484, 8484) Leaf))) (8486, 8486) (Node (Node (Node (Node Leaf
     (8488, 8488) Leaf) (8490, 8493) Leaf) (8495, 8505) (Node (Node Leaf (8508, 8511) Leaf)
     (8517, 8521) Leaf)) (8526, 8526) (Node (Node (Node Leaf (8528, 8585) Leaf) (9312, 9371) Leaf)
     (9450, 9471) (Node Leaf (10102, 10131) Leaf)))) (11264, 11492) (Node (Node (Node (Node (Node
     Leaf (11499, 11502) Leaf) (11506, 11507) Leaf) (11517, 11517) (Node (Node Leaf (11520, 11557)
     Leaf) (11559, 11559) Leaf)) (11565, 11565) (Node (Node (Node Leaf (11568, 11623) Leaf)
     (11631, 11631) Leaf) (11648, 11670) (Node (Node Leaf (11680, 11686) Leaf) (11688, 11694)
     Leaf))) (11696, 11702) (Node (Node (Node (Node Leaf (11704, 11710) Leaf) (11712, 11718) Leaf)
     (11720, 11726) (Node (Node Leaf (11728, 11734) Leaf) (11736, 11742) Leaf)) (11823, 11823)
     (Node (Node (Node Leaf (12293, 12295) Leaf) (12321, 12329) Leaf) (12337, 12341) (Node Leaf
     (12344, 12348) Leaf))))) (12353, 12438) (Node (Node (Node (Node (Node (Node Leaf
     (12445, 12447) Leaf) (12449, 12538) Leaf) (12540, 12543) (Node (Node Leaf (12549, 12591)
     Leaf) (12593, 12686) Leaf)) (12690, 12693) (Node (Node (Node Leaf (12704, 12735) Leaf)
     (12784, 12799) Leaf) (12832, 12841) (Node (Node Leaf (12872, 12879) Leaf) (12881, 12895)
     Leaf))) (12928, 12937) (Node (Node (Node (Node Leaf (12977, 12991) Leaf) (13312, 19903) Leaf)
     (19968, 42124) (Node (Node Leaf (42192, 42237) Leaf) (42240, 42508) Leaf)) (42512, 42539)
     (Node (Node (Node Leaf (42560, 42606) Leaf) (42623, 42653) Leaf) (42656, 42735) (Node Leaf
     (42775, 42783) Leaf)))) (42786, 42888) (Node (Node (Node (Node (Node Leaf (42891, 42954)
     Leaf) (42960, 42961) Leaf) (42963, 42963) (Node (Node Leaf (42965, 42969) Leaf)
     (42994, 43009) Leaf)) (43011, 43013) (Node (Node (Node Leaf (43015, 43018) Leaf)
     (43020, 43042) Leaf) (43056, 43061) (Node Leaf (43072, 43123) Leaf))) (43138, 43187) (Node
     (Node (Node (Node Leaf (43216, 43225) Leaf) (43250, 43255) Leaf) (43259, 43259) (Node (Node
     Leaf (43261, 43262) Leaf) (43264, 43301) Leaf)) (43312, 43334) (Node (Node (Node Leaf
     (43360, 43388) Leaf) (43396, 43442) Leaf) (43471, 43481) (Node Leaf (43488, 43492)
     Leaf)))))))) (43494, 43518) (Node (Node (Node (Node (Node (Node (Node (Node (Node Leaf
     (43520, 43560) Leaf) (43584, 43586) Leaf) (43588, 43595) (Node (Node Leaf (43600, 43609)
     Leaf) (43616, 43638) Leaf)) (43642, 43642) (Node (Node (Node Leaf (43646, 43695) Leaf)
     (43697, 43697) Leaf) (43701, 43702) (Node (Node Leaf (43705, 43709) Leaf) (43712, 43712)
     Leaf))) (43714, 43714) (Node (Node (Node (Node Leaf (43739, 43741) Leaf) (43744, 43754) Leaf)
     (43762, 43764) (Node (Node Leaf (43777, 43782) Leaf) (43785, 43790) Leaf)) (43793, 43798)
     (Node (Node (Node Leaf (43808, 43814) Leaf) (43816, 43822) Leaf) (43824, 43866) (Node Leaf
     (43868, 43881) Leaf)))) (43888, 44002) (Node (Node (Node (Node (Node Leaf (44016, 44025)
     Leaf) (44032, 55203) Leaf) (55216, 55238) (Node (Node Leaf (55243, 55291) Leaf)
     (63744, 64109) Leaf)) (64112, 64217) (Node (Node (Node Leaf (64256, 64262) Leaf)
     (64275, 64279) Leaf) (64285, 64285) (Node (Node Leaf (64287, 64296) Leaf) (64298, 64310)
     Leaf))) (64312, 64316) (Node (Node (Node (Node Leaf (64318, 64318) Leaf) (64320, 64321) Leaf)
     (64323, 64324) (Node (Node Leaf (64326, 64433) Leaf) (64467, 64829) Leaf)) (64848, 64911)
     (Node (Node (Node Leaf (64914, 64967) Leaf) (65008, 65019) Leaf) (65136, 65140) (Node Leaf
     (65142, 65276) Leaf))))) (65296, 65305) (Node (Node (Node (Node (Node (Node Leaf
     (65313, 65338) Leaf) (65345, 65370) Leaf) (65382, 65470) (Node (Node Leaf (65474, 65479)
     Leaf) (65482, 65487) Leaf)) (65490, 65495) (Node (Node (Node Leaf (65498, 65500) Leaf)
     (65536, 65547) Leaf) (65549, 65574) (Node (Node Leaf (65576, 65594) Leaf) (65596, 65597)
     Leaf))) (65599, 65613) (Node (Node (Node (Node Leaf (65616, 65629) Leaf) (65664, 65786) Leaf)
     (65799, 65843) (Node (Node Leaf (65856, 65912) Leaf) (65930, 65931) Leaf)) (66176, 66204)
     (Node (Node (Node Leaf (66208, 66256) Leaf) (66273, 66299) Leaf) (66304, 66339) (Node Leaf
     (66349, 66378) Leaf)))) (66384, 66421) (Node (Node (Node (Node (Node Leaf (66432, 66461)
     Leaf) (66464, 66499) Leaf) (66504, 66511) (Node (Node Leaf (66513, 66517) Leaf)
     (66560, 66717) Leaf)) (66720, 66729) (Node (Node (Node Leaf (66736, 66771) Leaf)
     (66776, 66811) Leaf) (66816, 66855) (Node (Node Leaf (66864, 66915) Leaf) (66928, 66938)
     Leaf))) (66940, 66954) (Node (Node (Node (Node Leaf (66956, 66962) Leaf) (66964, 66965) Leaf)
     (66967, 66977) (Node (Node Leaf (66979, 66993) Leaf) (66995, 67001) Leaf)) (67003, 67004)
     (Node (Node (Node Leaf (67072, 67382) Leaf) (67392, 67413) Leaf) (67424, 67431) (Node Leaf
     (67456, 67461) Leaf)))))) (67463, 67504) (Node (Node (Node (Node (Node (Node (Node Leaf
     (67506, 67514) Leaf) (67584, 67589) Leaf) (67592, 67592) (Node (Node Leaf (67594, 67637)
     Leaf) (67639, 67640) Leaf)) (67644, 67644) (Node (Node (Node Leaf (67647, 67669) Leaf)
     (67672, 67702) Leaf) (67705, 67742) (Node (Node Leaf (67751, 67759) Leaf) (67808, 67826)
     Leaf))) (67828, 67829) (Node (Node (Node (Node Leaf (67835, 67867) Leaf) (67872, 67897) Leaf)
     (67968, 68023) (Node (Node Leaf (68028, 68047) Leaf) (68050, 68096) Leaf)) (68112, 68115)
     (Node (Node (Node Leaf (68117, 68119) Leaf) (68121, 68149) Leaf) (68160, 68168) (Node Leaf
     (68192, 68222) Leaf)))) (68224, 68255) (Node (Node (Node (Node (Node Leaf (68288, 68295)
     Leaf) (68297, 68324) Leaf) (68331, 68335) (Node (Node Leaf (68352, 68405) Leaf)
     (68416, 68437) Leaf)) (68440, 68466) (Node (Node (Node Leaf (68472, 68497) Leaf)
     (68521, 68527) Leaf) (68608, 68680) (Node (Node Leaf (68736, 68786) Leaf) (68800, 68850)
     Leaf))) (68858, 68899) (Node (Node (Node (Node Leaf (68912, 68921) Leaf) (69216, 69246) Leaf)
     (69248, 69289) (Node (Node Leaf (69296, 69297) Leaf) (69376, 69415) Leaf)) (69424, 69445)
     (Node (Node (Node Leaf (69457, 69460) Leaf) (69488, 69505) Leaf) (69552, 69579) (Node Leaf
     (69600, 69622) Leaf))))) (69635, 69687) (Node (Node (Node (Node (Node (Node Leaf
     (69714, 69743) Leaf) (69745, 69746) Leaf) (69749, 69749) (Node (Node Leaf (69763, 69807)
     Leaf) (69840, 69864) Leaf)) (69872, 69881) (Node (Node (Node Leaf (69891, 69926) Leaf)
     (69942, 69951) Leaf) (69956, 69956) (Node (Node Leaf (69959, 69959) Leaf) (69968, 70002)
     Leaf))) (70006, 70006) (Node (Node (Node (Node Leaf (70019, 70066) Leaf) (70081, 70084) Leaf)
     (70096, 70106) (Node (Node Leaf (70108, 70108) Leaf) (70113, 70132) Leaf)) (70144, 70161)
     (Node (Node (Node Leaf (70163, 70187) Leaf) (70272, 70278) Leaf) (70280, 70280) (Node Leaf
     (70282, 70285) Leaf)))) (70287, 70301) (Node (Node (Node (Node (Node Leaf (70303, 70312)
     Leaf) (70320, 70366) Leaf) (70384, 70393) (Node (Node Leaf (70405, 70412) Leaf)
     (70415, 70416) Leaf)) (70419, 70440) (Node (Node (Node Leaf (70442, 70448) Leaf)
     (70450, 70451) Leaf) (70453, 70457) (Node (Node Leaf (70461, 70461) Leaf) (70480, 70480)
     Leaf))) (70493, 70497) (Node (Node (Node (Node Leaf (70656, 70708) Leaf) (70727, 70730) Leaf)
     (70736, 70745) (Node (Node Leaf (70751, 70753) Leaf) (70784, 70831) Leaf)) (70852, 70853)
     (Node (Node (Node Leaf (70855, 70855) Leaf) (70864, 70873) Leaf) (71040, 71086) (Node Leaf
     (71128, 71131) Leaf))))))) (71168, 71215) (Node (Node (Node (Node (Node (Node (Node (Node
     Leaf (71236, 71236) Leaf) (71248, 71257) Leaf) (71296, 71338) (Node (Node Leaf (71352, 71352)
     Leaf) (71360, 71369) Leaf)) (71424, 71450) (Node (Node (Node Leaf (71472, 71483) Leaf)
     (71488, 71494) Leaf) (71680, 71723) (Node (Node Leaf (71840, 71922) Leaf) (71935, 71942)
     Leaf))) (71945, 71945) (Node (Node (Node (Node Leaf (71948, 71955) Leaf) (71957, 71958) Leaf)
     (71960, 71983) (Node (Node Leaf (71999, 71999) Leaf) (72001, 72001) Leaf)) (72016, 72025)
     (Node (Node (Node Leaf (72096, 72103) Leaf) (72106, 72144) Leaf) (72161, 72161) (Node Leaf
     (72163, 72163) Leaf)))) (72192, 72192) (Node (Node (Node (Node (Node Leaf (72203, 72242)
     Leaf) (72250, 72250) Leaf) (72272, 72272) (Node (Node Leaf (72284, 72329) Leaf)
     (72349, 72349) Leaf)) (72368, 72440) (Node (Node (Node Leaf (72704, 72712) Leaf)
     (72714, 72750) Leaf) (72768, 72768) (Node (Node Leaf (72784, 72812) Leaf) (72818, 72847)
     Leaf))) (72960, 72966) (Node (Node (Node (Node Leaf (72968, 72969) Leaf) (72971, 73008) Leaf)
     (73030, 73030) (Node (Node Leaf (73040, 73049) Leaf) (73056, 73061) Leaf)) (73063, 73064)
     (Node (Node (Node Leaf (73066, 73097) Leaf) (73112, 73112) Leaf) (73120, 73129) (Node Leaf
     (73440, 73458) Leaf))))) (73648, 73648) (Node (Node (Node (Node (Node (Node Leaf
     (73664, 73684) Leaf) (73728, 74649) Leaf) (74752, 74862) (Node (Node Leaf (74880, 75075)
     Leaf) (77712, 77808) Leaf)) (77824, 78894) (Node (Node (Node Leaf (82944, 83526) Leaf)
     (92160, 92728) Leaf) (92736, 92766) (Node (Node Leaf (92768, 92777) Leaf) (92784, 92862)
     Leaf))) (92864, 92873) (Node (Node (Node (Node Leaf (92880, 92909) Leaf) (92928, 92975) Leaf)
     (92992, 92995) (Node (Node Leaf (93008, 93017) Leaf) (93019, 93025) Leaf)) (93027, 93047)
     (Node (Node (Node Leaf (93053, 93071) Leaf) (93760, 93846) Leaf) (93952, 94026) (Node Leaf
     (94032, 94032) Leaf)))) (94099, 94111) (Node (Node (Node (Node (Node Leaf (94176, 94177)
     Leaf) (94179, 94179) Leaf) (94208, 100343) (Node (Node Leaf (100352, 101589) Leaf)
     (101632, 101640) Leaf)) (110576, 110579) (Node (Node (Node Leaf (110581, 110587) Leaf)
     (110589, 110590) Leaf) (110592, 110882) (Node (Node Leaf (110928, 110930) Leaf)
     (110948, 110951) Leaf))) (110960, 111355) (Node (Node (Node (Node Leaf (113664, 113770) Leaf)
     (113776, 113788) Leaf) (113792, 113800) (Node (Node Leaf (113808, 113817) Leaf)
     (119520, 119539) Leaf)) (119648, 119672) (Node (Node (Node Leaf (119808, 119892) Leaf)
     (119894, 119964) Leaf) (119966, 119967) (Node Leaf (119970, 119970) Leaf))))))
     (119973, 119974) (Node (Node (Node (Node (Node (Node (Node Leaf (119977, 119980) Leaf)
     (119982, 119993) Leaf) (119995, 119995) (Node (Node Leaf (119997, 120003) Leaf)
     (120005, 120069) Leaf)) (120071, 120074) (Node (Node (Node Leaf (120077, 120084) Leaf)
     (120086, 120092) Leaf) (120094, 120121) (Node (Node Leaf (120123, 120126) Leaf)
     (120128, 120132) Leaf))) (120134, 120134) (Node (Node (Node (Node Leaf (120138, 120144) Leaf)
     (120146, 120485) Leaf) (120488, 120512) (Node (Node Leaf (120514, 120538) Leaf)
     (120540, 120570) Leaf)) (120572, 120596) (Node (Node (Node Leaf (120598, 120628) Leaf)
     (120630, 120654) Leaf) (120656, 120686) (Node Leaf (120688, 120712) Leaf)))) (120714, 120744)
     (Node (Node (Node (Node (Node Leaf (120746, 120770) Leaf) (120772, 120779) Leaf)
     (120782, 120831) (Node (Node Leaf (122624, 122654) Leaf) (123136, 123180) Leaf))
     (123191, 123197) (Node (Node (Node Leaf (123200, 123209) Leaf) (123214, 123214) Leaf)
     (123536, 123565) (Node (Node Leaf (123584, 123627) Leaf) (123632, 123641) Leaf)))
     (124896, 124902) (Node (Node (Node (Node Leaf (124904, 124907) Leaf) (124909, 124910) Leaf)
     (124912, 124926) (Node (Node Leaf (124928, 125124) Leaf) (125127, 125135) Leaf))
     (125184, 125251) (Node (Node (Node Leaf (125259, 125259) Leaf) (125264, 125273) Leaf)
     (126065, 126123) (Node Leaf (126125, 126127) Leaf))))) (126129, 126132) (Node (Node (Node
     (Node (Node (Node Leaf (126209, 126253) Leaf) (126255, 126269) Leaf) (126464, 126467) (Node
     (Node Leaf (126469, 126495) Leaf) (126497, 126498) Leaf)) (126500, 126500) (Node (Node (Node
     Leaf (126503, 126503) Leaf) (126505, 126514) Leaf) (126516, 126519) (Node (Node Leaf
     (126521, 126521) Leaf) (126523, 126523) Leaf))) (126530, 126530) (Node (Node (Node (Node Leaf
     (126535, 126535) Leaf) (126537, 126537) Leaf) (126539, 126539) (Node (Node Leaf
     (126541, 126543) Leaf) (126545, 126546) Leaf)) (126548, 126548) (Node (Node (Node Leaf
     (126551, 126551) Leaf) (126553, 126553) Leaf) (126555, 126555) (Node Leaf (126557, 126557)
     Leaf)))) (126559, 126559) (Node (Node (Node (Node (Node Leaf (126561, 126562) Leaf)
     (126564, 126564) Leaf) (126567, 126570) (Node (Node Leaf (126572, 126578) Leaf)
     (126580, 126583) Leaf)) (126585, 126588) (Node (Node (Node Leaf (126590, 126590) Leaf)
     (126592, 126601) Leaf) (126603, 126619) (Node Leaf (126625, 126627) Leaf))) (126629, 126633)
     (Node (Node (Node (Node Leaf (126635, 126651) Leaf) (127232, 127244) Leaf) (130032, 130041)
     (Node (Node Leaf (131072, 173791) Leaf) (173824, 177976) Leaf)) (177984, 178205) (Node (Node
     (Node Leaf (178208, 183969) Leaf) (183984, 191456) Leaf) (194560, 195101) (Node Leaf
     (196608, 201546) Leaf))))))))"

definition cased_ranges :: "(nat \<times> nat) search_tree" where
  "cased_ranges =
     Node (Node (Node (Node (Node (Node (Node (Node Leaf (65, 90) Leaf) (97, 122) Leaf) (170, 170)
     (Node Leaf (181, 181) Leaf)) (186, 186) (Node (Node (Node Leaf (192, 214) Leaf) (216, 246)
     Leaf) (248, 442) (Node Leaf (444, 447) Leaf))) (452, 659) (Node (Node (Node (Node Leaf
     (661, 696) Leaf) (704, 705) Leaf) (736, 740) (Node Leaf (837, 837) Leaf)) (880, 883) (Node
     (Node (Node Leaf (886, 887) Leaf) (890, 893) Leaf) (895, 895) (Node Leaf (902, 902) Leaf))))
     (904, 906) (Node (Node (Node (Node (Node Leaf (908, 908) Leaf) (910, 929) Leaf) (931, 1013)
     (Node Leaf (1015, 1153) Leaf)) (1162, 1327) (Node (Node (Node Leaf (1329, 1366) Leaf)
     (1376, 1416) Leaf) (4256, 4293) (Node Leaf (4295, 4295) Leaf))) (4301, 4301) (Node (Node
     (Node (Node Leaf (4304, 4346) Leaf) (4349, 4351) Leaf) (5024, 5109) (Node Leaf (5112, 5117)
     Leaf)) (7296, 7304) (Node (Node Leaf (7312, 7354) Leaf) (7357, 7359) (Node Leaf (7424, 7615)
     Leaf))))) (7680, 7957) (Node (Node (Node (Node (Node (Node Leaf (7960, 7965) Leaf)
     (7968, 8005) Leaf) (8008, 8013) (Node Leaf (8016, 8023) Leaf)) (8025, 8025) (Node (Node (Node
     Leaf (8027, 8027) Leaf) (8029, 8029) Leaf) (8031, 8061) (Node Leaf (8064, 8116) Leaf)))
     (8118, 8124) (Node (Node (Node (Node Leaf (8126, 8126) Leaf) (8130, 8132) Leaf) (8134, 8140)
     (Node Leaf (8144, 8147) Leaf)) (8150, 8155) (Node (Node (Node Leaf (8160, 8172) Leaf)
     (8178, 8180) Leaf) (8182, 8188) (Node Leaf (8305, 8305) Leaf)))) (8319, 8319) (Node (Node
     (Node (Node (Node Leaf (8336, 8348) Leaf) (8450, 8450) Leaf) (8455, 8455) (Node Leaf
     (8458, 8467) Leaf)) (8469, 8469) (Node (Node (Node Leaf (8473, 8477) Leaf) (8484, 8484) Leaf)
     (8486, 8486) (Node Leaf (8488, 8488) Leaf))) (8490, 8493) (Node (Node (Node (Node Leaf
     (8495, 8500) Leaf) (8505, 8505) Leaf) (8508, 8511) (Node Leaf (8517, 8521) Leaf))
     (8526, 8526) (Node (Node Leaf (8544, 8575) Leaf) (8579, 8580) (Node Leaf (9398, 9449)
     Leaf)))))) (11264, 11492) (Node (Node (Node (Node (Node (Node (Node Leaf (11499, 11502) Leaf)
     (11506, 11507) Leaf) (11520, 11557) (Node Leaf (11559, 11559) Leaf)) (11565, 11565) (Node
     (Node (Node Leaf (42560, 42605) Leaf) (42624, 42653) Leaf) (42786, 42887) (Node Leaf
     (42891, 42894) Leaf))) (42896, 42954) (Node (Node (Node (Node Leaf (42960, 42961) Leaf)
     (42963, 42963) Leaf) (42965, 42969) (Node Leaf (42997, 42998) Leaf)) (43000, 43002) (Node
     (Node (Node Leaf (43824, 43866) Leaf) (43868, 43880) Leaf) (43888, 43967) (Node Leaf
     (64256, 64262) Leaf)))) (64275, 64279) (Node (Node (Node (Node (Node Leaf (65313, 65338)
     Leaf) (65345, 65370) Leaf) (66560, 66639) (Node Leaf (66736, 66771) Leaf)) (66776, 66811)
     (Node (Node (Node Leaf (66928, 66938) Leaf) (66940, 66954) Leaf) (66956, 66962) (Node Leaf
     (66964, 66965) Leaf))) (66967, 66977) (Node (Node (Node (Node Leaf (66979, 66993) Leaf)
     (66995, 67001) Leaf) (67003, 67004) (Node Leaf (67456, 67456) Leaf)) (67459, 67461) (Node
     (Node Leaf (67463, 67504) Leaf) (67506, 67514) (Node Leaf (68736, 68786) Leaf)))))
     (68800, 68850) (Node (Node (Node (Node (Node (Node Leaf (71840, 71903) Leaf) (93760, 93823)
     Leaf) (119808, 119892) (Node Leaf (119894, 119964) Leaf)) (119966, 119967) (Node (Node (Node
     Leaf (119970, 119970) Leaf) (119973, 119974) Leaf) (119977, 119980) (Node Leaf
     (119982, 119993) Leaf))) (119995, 119995) (Node (Node (Node (Node Leaf (119997, 120003) Leaf)
     (120005, 120069) Leaf) (120071, 120074) (Node Leaf (120077, 120084) Leaf)) (120086, 120092)
     (Node (Node (Node Leaf (120094, 120121) Leaf) (120123, 120126) Leaf) (120128, 120132) (Node
     Leaf (120134, 120134) Leaf)))) (120138, 120144) (Node (Node (Node (Node (Node Leaf
     (120146, 120485) Leaf) (120488, 120512) Leaf) (120514, 120538) (Node Leaf (120540, 120570)
     Leaf)) (120572, 120596) (Node (Node (Node Leaf (120598, 120628) Leaf) (120630, 120654) Leaf)
     (120656, 120686) (Node Leaf (120688, 120712) Leaf))) (120714, 120744) (Node (Node (Node (Node
     Leaf (120746, 120770) Leaf) (120772, 120779) Leaf) (122624, 122633) (Node Leaf
     (122635, 122654) Leaf)) (125184, 125251) (Node (Node Leaf (127280, 127305) Leaf)
     (127312, 127337) (Node Leaf (127344, 127369) Leaf))))))"

definition case_ignorable_ranges :: "(nat \<times> nat) search_tree" where
  "case_ignorable_ranges =
     Node (Node (Node (Node (Node (Node (Node (Node (Node Leaf (39, 39) Leaf) (46, 46) (Node Leaf
     (58, 58) Leaf)) (94, 94) (Node (Node Leaf (96, 96) Leaf) (168, 168) Leaf)) (173, 173) (Node
     (Node (Node Leaf (175, 175) Leaf) (180, 180) (Node Leaf (183, 184) Leaf)) (688, 879) (Node
     (Node Leaf (884, 885) Leaf) (890, 890) Leaf))) (900, 901) (Node (Node (Node (Node Leaf
     (903, 903) Leaf) (1155, 1161) (Node Leaf (1369, 1369) Leaf)) (1375, 1375) (Node (Node Leaf
     (1425, 1469) Leaf) (1471, 1471) Leaf)) (1473, 1474) (Node (Node (Node Leaf (1476, 1477) Leaf)
     (1479, 1479) Leaf) (1524, 1524) (Node (Node Leaf (1536, 1541) Leaf) (1552, 1562) Leaf))))
     (1564, 1564) (Node (Node (Node (Node (Node Leaf (1600, 1600) Leaf) (1611, 1631) (Node Leaf
     (1648, 1648) Leaf)) (1750, 1757) (Node (Node Leaf (1759, 1768) Leaf) (1770, 1773) Leaf))
     (1807, 1807) (Node (Node (Node Leaf (1809, 1809) Leaf) (1840, 1866) (Node Leaf (1958, 1968)
     Leaf)) (2027, 2037) (Node (Node Leaf (2042, 2042) Leaf) (2045, 2045) Leaf))) (2070, 2093)
     (Node (Node (Node (Node Leaf (2137, 2139) Leaf) (2184, 2184) (Node Leaf (2192, 2193) Leaf))
     (2200, 2207) (Node (Node Leaf (2249, 2306) Leaf) (2362, 2362) Leaf)) (2364, 2364) (Node (Node
     (Node Leaf (2369, 2376) Leaf) (2381, 2381) Leaf) (2385, 2391) (Node (Node Leaf (2402, 2403)
     Leaf) (2417, 2417) Leaf))))) (2433, 2433) (Node (Node (Node (Node (Node (Node Leaf
     (2492, 2492) Leaf) (2497, 2500) (Node Leaf (2509, 2509) Leaf)) (2530, 2531) (Node (Node Leaf
     (2558, 2558) Leaf) (2561, 2562) Leaf)) (2620, 2620) (Node (Node (Node Leaf (2625, 2626) Leaf)
     (2631, 2632) (Node Leaf (2635, 2637) Leaf)) (2641, 2641) (Node (Node Leaf (2672, 2673) Leaf)
     (2677, 2677) Leaf))) (2689, 2690) (Node (Node (Node (Node Leaf (2748, 2748) Leaf)
     (2753, 2757) (Node Leaf (2759, 2760) Leaf)) (2765, 2765) (Node (Node Leaf (2786, 2787) Leaf)
     (2810, 2815) Leaf)) (2817, 2817) (Node (Node (Node Leaf (2876, 2876) Leaf) (2879, 2879) Leaf)
     (2881, 2884) (Node (Node Leaf (2893, 2893) Leaf) (2901, 2902) Leaf)))) (2914, 2915) (Node
     (Node (Node (Node (Node Leaf (2946, 2946) Leaf) (3008, 3008) (Node Leaf (3021, 3021) Leaf))
     (3072, 3072) (Node (Node Leaf (3076, 3076) Leaf) (3132, 3132) Leaf)) (3134, 3136) (Node (Node
     (Node Leaf (3142, 3144) Leaf) (3146, 3149) Leaf) (3157, 3158) (Node (Node Leaf (3170, 3171)
     Leaf) (3201, 3201) Leaf))) (3260, 3260) (Node (Node (Node (Node Leaf (3263, 3263) Leaf)
     (3270, 3270) (Node Leaf (3276, 3277) Leaf)) (3298, 3299) (Node (Node Leaf (3328, 3329) Leaf)
     (3387, 3388) Leaf)) (3393, 3396) (Node (Node (Node Leaf (3405, 3405) Leaf) (3426, 3427) Leaf)
     (3457, 3457) (Node (Node Leaf (3530, 3530) Leaf) (3538, 3540) Leaf)))))) (3542, 3542) (Node
     (Node (Node (Node (Node (Node (Node Leaf (3633, 3633) Leaf) (3636, 3642) (Node Leaf
     (3654, 3662) Leaf)) (3761, 3761) (Node (Node Leaf (3764, 3772) Leaf) (3782, 3782) Leaf))
     (3784, 3789) (Node (Node (Node Leaf (3864, 3865) Leaf) (3893, 3893) (Node Leaf (3895, 3895)
     Leaf)) (3897, 3897) (Node (Node Leaf (3953, 3966) Leaf) (3968, 3972) Leaf))) (3974, 3975)
     (Node (Node (Node (Node Leaf (3981, 3991) Leaf) (3993, 4028) (Node Leaf (4038, 4038) Leaf))
     (4141, 4144) (Node (Node Leaf (4146, 4151) Leaf) (4153, 4154) Leaf)) (4157, 4158) (Node (Node
     (Node Leaf (4184, 4185) Leaf) (4190, 4192) Leaf) (4209, 4212) (Node (Node Leaf (4226, 4226)
     Leaf) (4229, 4230) Leaf)))) (4237, 4237) (Node (Node (Node (Node (Node Leaf (4253, 4253)
     Leaf) (4348, 4348) (Node Leaf (4957, 4959) Leaf)) (5906, 5908) (Node (Node Leaf (5938, 5939)
     Leaf) (5970, 5971) Leaf)) (6002, 6003) (Node (Node (Node Leaf (6068, 6069) Leaf) (6071, 6077)
     (Node Leaf (6086, 6086) Leaf)) (6089, 6099) (Node (Node Leaf (6103, 6103) Leaf) (6109, 6109)
     Leaf))) (6155, 6159) (Node (Node (Node (Node Leaf (6211, 6211) Leaf) (6277, 6278) (Node Leaf
     (6313, 6313) Leaf)) (6432, 6434) (Node (Node Leaf (6439, 6440) Leaf) (6450, 6450) Leaf))
     (6457, 6459) (Node (Node (Node Leaf (6679, 6680) Leaf) (6683, 6683) Leaf) (6742, 6742) (Node
     (Node Leaf (6744, 6750) Leaf) (6752, 6752) Leaf))))) (6754, 6754) (Node (Node (Node (Node
     (Node (Node Leaf (6757, 6764) Leaf) (6771, 6780) (Node Leaf (6783, 6783) Leaf)) (6823, 6823)
     (Node (Node Leaf (6832, 6862) Leaf) (6912, 6915) Leaf)) (6964, 6964) (Node (Node (Node Leaf
     (6966, 6970) Leaf) (6972, 6972) (Node Leaf (6978, 6978) Leaf)) (7019, 7027) (Node (Node Leaf
     (7040, 7041) Leaf) (7074, 7077) Leaf))) (7080, 7081) (Node (Node (Node (Node Leaf
     (7083, 7085) Leaf) (7142, 7142) (Node Leaf (7144, 7145) Leaf)) (7149, 7149) (Node (Node Leaf
     (7151, 7153) Leaf) (7212, 7219) Leaf)) (7222, 7223) (Node (Node (Node Leaf (7288, 7293) Leaf)
     (7376, 7378) Leaf) (7380, 7392) (Node (Node Leaf (7394, 7400) Leaf) (7405, 7405) Leaf))))
     (7412, 7412) (Node (Node (Node (Node (Node Leaf (7416, 7417) Leaf) (7468, 7530) (Node Leaf
     (7544, 7544) Leaf)) (7579, 7679) (Node (Node Leaf (8125, 8125) Leaf) (8127, 8129) Leaf))
     (8141, 8143) (Node (Node (Node Leaf (8157, 8159) Leaf) (8173, 8175) Leaf) (8189, 8190) (Node
     (Node Leaf (8203, 8207) Leaf) (8216, 8217) Leaf))) (8228, 8228) (Node (Node (Node (Node Leaf
     (8231, 8231) Leaf) (8234, 8238) (Node Leaf (8288, 8292) Leaf)) (8294, 8303) (Node (Node Leaf
     (8305, 8305) Leaf) (8319, 8319) Leaf)) (8336, 8348) (Node (Node (Node Leaf (8400, 8432) Leaf)
     (11388, 11389) Leaf) (11503, 11505) (Node (Node Leaf (11631, 11631) Leaf) (11647, 11647)
     Leaf))))))) (11744, 11775) (Node (Node (Node (Node (Node (Node (Node (Node Leaf
     (11823, 11823) Leaf) (12293, 12293) (Node Leaf (12330, 12333) Leaf)) (12337, 12341) (Node
     (Node Leaf (12347, 12347) Leaf) (12441, 12446) Leaf)) (12540, 12542) (Node (Node (Node Leaf
     (40981, 40981) Leaf) (42232, 42237) (Node Leaf (42508, 42508) Leaf)) (42607, 42610) (Node
     (Node Leaf (42612, 42621) Leaf) (42623, 42623) Leaf))) (42652, 42655) (Node (Node (Node (Node
     Leaf (42736, 42737) Leaf) (42752, 42785) (Node Leaf (42864, 42864) Leaf)) (42888, 42890)
     (Node (Node Leaf (42994, 42996) Leaf) (43000, 43001) Leaf)) (43010, 43010) (Node (Node (Node
     Leaf (43014, 43014) Leaf) (43019, 43019) Leaf) (43045, 43046) (Node (Node Leaf (43052, 43052)
     Leaf) (43204, 43205) Leaf)))) (43232, 43249) (Node (Node (Node (Node (Node Leaf
     (43263, 43263) Leaf) (43302, 43309) (Node Leaf (43335, 43345) Leaf)) (43392, 43394) (Node
     (Node Leaf (43443, 43443) Leaf) (43446, 43449) Leaf)) (43452, 43453) (Node (Node (Node Leaf
     (43471, 43471) Leaf) (43493, 43494) (Node Leaf (43561, 43566) Leaf)) (43569, 43570) (Node
     (Node Leaf (43573, 43574) Leaf) (43587, 43587) Leaf))) (43596, 43596) (Node (Node (Node (Node
     Leaf (43632, 43632) Leaf) (43644, 43644) (Node Leaf (43696, 43696) Leaf)) (43698, 43700)
     (Node (Node Leaf (43703, 43704) Leaf) (43710, 43711) Leaf)) (43713, 43713) (Node (Node (Node
     Leaf (43741, 43741) Leaf) (43756, 43757) Leaf) (43763, 43764) (Node (Node Leaf (43766, 43766)
     Leaf) (43867, 43871) Leaf))))) (43881, 43883) (Node (Node (Node (Node (Node (Node Leaf
     (44005, 44005) Leaf) (44008, 44008) (Node Leaf (44013, 44013) Leaf)) (64286, 64286) (Node
     (Node Leaf (64434, 64450) Leaf) (65024, 65039) Leaf)) (65043, 65043) (Node (Node (Node Leaf
     (65056, 65071) Leaf) (65106, 65106) (Node Leaf (65109, 65109) Leaf)) (65279, 65279) (Node
     (Node Leaf (65287, 65287) Leaf) (65294, 65294) Leaf))) (65306, 65306) (Node (Node (Node (Node
     Leaf (65342, 65342) Leaf) (65344, 65344) (Node Leaf (65392, 65392) Leaf)) (65438, 65439)
     (Node (Node Leaf (65507, 65507) Leaf) (65529, 65531) Leaf)) (66045, 66045) (Node (Node (Node
     Leaf (66272, 66272) Leaf) (66422, 66426) Leaf) (67456, 67461) (Node (Node Leaf (67463, 67504)
     Leaf) (67506, 67514) Leaf)))) (68097, 68099) (Node (Node (Node (Node (Node Leaf
     (68101, 68102) Leaf) (68108, 68111) (Node Leaf (68152, 68154) Leaf)) (68159, 68159) (Node
     (Node Leaf (68325, 68326) Leaf) (68900, 68903) Leaf)) (69291, 69292) (Node (Node (Node Leaf
     (69446, 69456) Leaf) (69506, 69509) Leaf) (69633, 69633) (Node (Node Leaf (69688, 69702)
     Leaf) (69744, 69744) Leaf))) (69747, 69748) (Node (Node (Node (Node Leaf (69759, 69761) Leaf)
     (69811, 69814) (Node Leaf (69817, 69818) Leaf)) (69821, 69821) (Node (Node Leaf
     (69826, 69826) Leaf) (69837, 69837) Leaf)) (69888, 69890) (Node (Node (Node Leaf
     (69927, 69931) Leaf) (69933, 69940) Leaf) (70003, 70003) (Node (Node Leaf (70016, 70017)
     Leaf) (70070, 70078) Leaf)))))) (70089, 70092) (Node (Node (Node (Node (Node (Node (Node Leaf
     (70095, 70095) Leaf) (70191, 70193) (Node Leaf (70196, 70196) Leaf)) (70198, 70199) (Node
     (Node Leaf (70206, 70206) Leaf) (70367, 70367) Leaf)) (70371, 70378) (Node (Node (Node Leaf
     (70400, 70401) Leaf) (70459, 70460) (Node Leaf (70464, 70464) Leaf)) (70502, 70508) (Node
     (Node Leaf (70512, 70516) Leaf) (70712, 70719) Leaf))) (70722, 70724) (Node (Node (Node (Node
     Leaf (70726, 70726) Leaf) (70750, 70750) (Node Leaf (70835, 70840) Leaf)) (70842, 70842)
     (Node (Node Leaf (70847, 70848) Leaf) (70850, 70851) Leaf)) (71090, 71093) (Node (Node (Node
     Leaf (71100, 71101) Leaf) (71103, 71104) Leaf) (71132, 71133) (Node (Node Leaf (71219, 71226)
     Leaf) (71229, 71229) Leaf)))) (71231, 71232) (Node (Node (Node (Node (Node Leaf
     (71339, 71339) Leaf) (71341, 71341) (Node Leaf (71344, 71349) Leaf)) (71351, 71351) (Node
     (Node Leaf (71453, 71455) Leaf) (71458, 71461) Leaf)) (71463, 71467) (Node (Node (Node Leaf
     (71727, 71735) Leaf) (71737, 71738) (Node Leaf (71995, 71996) Leaf)) (71998, 71998) (Node
     (Node Leaf (72003, 72003) Leaf) (72148, 72151) Leaf))) (72154, 72155) (Node (Node (Node (Node
     Leaf (72160, 72160) Leaf) (72193, 72202) (Node Leaf (72243, 72248) Leaf)) (72251, 72254)
     (Node (Node Leaf (72263, 72263) Leaf) (72273, 72278) Leaf)) (72281, 72283) (Node (Node (Node
     Leaf (72330, 72342) Leaf) (72344, 72345) Leaf) (72752, 72758) (Node (Node Leaf (72760, 72765)
     Leaf) (72767, 72767) Leaf))))) (72850, 72871) (Node (Node (Node (Node (Node (Node Leaf
     (72874, 72880) Leaf) (72882, 72883) (Node Leaf (72885, 72886) Leaf)) (73009, 73014) (Node
     (Node Leaf (73018, 73018) Leaf) (73020, 73021) Leaf)) (73023, 73029) (Node (Node (Node Leaf
     (73031, 73031) Leaf) (73104, 73105) (Node Leaf (73109, 73109) Leaf)) (73111, 73111) (Node
     (Node Leaf (73459, 73460) Leaf) (78896, 78904) Leaf))) (92912, 92916) (Node (Node (Node (Node
     Leaf (92976, 92982) Leaf) (92992, 92995) (Node Leaf (94031, 94031) Leaf)) (94095, 94111)
     (Node (Node Leaf (94176, 94177) Leaf) (94179, 94180) Leaf)) (110576, 110579) (Node (Node
     (Node Leaf (110581, 110587) Leaf) (110589, 110590) Leaf) (113821, 113822) (Node (Node Leaf
     (113824, 113827) Leaf) (118528, 118573) Leaf)))) (118576, 118598) (Node (Node (Node (Node
     (Node Leaf (119143, 119145) Leaf) (119155, 119170) (Node Leaf (119173, 119179) Leaf))
     (119210, 119213) (Node (Node Leaf (119362, 119364) Leaf) (121344, 121398) Leaf))
     (121403, 121452) (Node (Node (Node Leaf (121461, 121461) Leaf) (121476, 121476) Leaf)
     (121499, 121503) (Node (Node Leaf (121505, 121519) Leaf) (122880, 122886) Leaf)))
     (122888, 122904) (Node (Node (Node (Node Leaf (122907, 122913) Leaf) (122915, 122916) (Node
     Leaf (122918, 122922) Leaf)) (123184, 123197) (Node (Node Leaf (123566, 123566) Leaf)
     (123628, 123631) Leaf)) (125136, 125142) (Node (Node (Node Leaf (125252, 125259) Leaf)
     (127995, 127999) Leaf) (917505, 917505) (Node (Node Leaf (917536, 917631) Leaf)
     (917760, 917999) Leaf)))))))"

definition lower_table :: "(nat \<times> nat \<times> nat \<times> nat) search_tree" where
  "lower_table =
     Node (Node (Node (Node (Node (Node (Node (Node Leaf (65, 90, 1, 97) Leaf) (192, 214, 1, 224)
     Leaf) (216, 222, 1, 248) (Node (Node Leaf (256, 302, 2, 257) Leaf) (304, 304, 1, 105) Leaf))
     (306, 310, 2, 307) (Node (Node (Node Leaf (313, 327, 2, 314) Leaf) (330, 374, 2, 331) Leaf)
     (376, 376, 1, 255) (Node (Node Leaf (377, 381, 2, 378) Leaf) (385, 385, 1, 595) Leaf)))
     (386, 388, 2, 387) (Node (Node (Node (Node Leaf (390, 390, 1, 596) Leaf) (391, 391, 1, 392)
     Leaf) (393, 394, 1, 598) (Node (Node Leaf (395, 395, 1, 396) Leaf) (398, 398, 1, 477) Leaf))
     (399, 399, 1, 601) (Node (Node (Node Leaf (400, 400, 1, 603) Leaf) (401, 401, 1, 402) Leaf)
     (403, 403, 1, 608) (Node Leaf (404, 404, 1, 611) Leaf)))) (406, 406, 1, 617) (Node (Node
     (Node (Node (Node Leaf (407, 407, 1, 616) Leaf) (408, 408, 1, 409) Leaf) (412, 412, 1, 623)
     (Node (Node Leaf (413, 413, 1, 626) Leaf) (415, 415, 1, 629) Leaf)) (416, 420, 2, 417) (Node
     (Node (Node Leaf (422, 422, 1, 640) Leaf) (423, 423, 1, 424) Leaf) (425, 425, 1, 643) (Node
     (Node Leaf (428, 428, 1, 429) Leaf) (430, 430, 1, 648) Leaf))) (431, 431, 1, 432) (Node (Node
     (Node (Node Leaf (433, 434, 1, 650) Leaf) (435, 437, 2, 436) Leaf) (439, 439, 1, 658) (Node
     (Node Leaf (440, 440, 1, 441) Leaf) (444, 444, 1, 445) Leaf)) (452, 452, 1, 454) (Node (Node
     (Node Leaf (453, 453, 1, 454) Leaf) (455, 455, 1, 457) Leaf) (456, 456, 1, 457) (Node Leaf
     (458, 458, 1, 460) Leaf))))) (459, 475, 2, 460) (Node (Node (Node (Node (Node (Node Leaf
     (478, 494, 2, 479) Leaf) (497, 497, 1, 499) Leaf) (498, 500, 2, 499) (Node (Node Leaf
     (502, 502, 1, 405) Leaf) (503, 503, 1, 447) Leaf)) (504, 542, 2, 505) (Node (Node (Node Leaf
     (544, 544, 1, 414) Leaf) (546, 562, 2, 547) Leaf) (570, 570, 1, 11365) (Node (Node Leaf
     (571, 571, 1, 572) Leaf) (573, 573, 1, 410) Leaf))) (574, 574, 1, 11366) (Node (Node (Node
     (Node Leaf (577, 577, 1, 578) Leaf) (579, 579, 1, 384) Leaf) (580, 580, 1, 649) (Node (Node
     Leaf (581, 581, 1, 652) Leaf) (582, 590, 2, 583) Leaf)) (880, 882, 2, 881) (Node (Node (Node
     Leaf (886, 886, 1, 887) Leaf) (895, 895, 1, 1011) Leaf) (902, 902, 1, 940) (Node Leaf
     (904, 906, 1, 941) Leaf)))) (908, 908, 1, 972) (Node (Node (Node (Node (Node Leaf
     (910, 911, 1, 973) Leaf) (913, 929, 1, 945) Leaf) (931, 939, 1, 963) (Node (Node Leaf
     (975, 975, 1, 983) Leaf) (984, 1006, 2, 985) Leaf)) (1012, 1012, 1, 952) (Node (Node (Node
     Leaf (1015, 1015, 1, 1016) Leaf) (1017, 1017, 1, 1010) Leaf) (1018, 1018, 1, 1019) (Node
     (Node Leaf (1021, 1023, 1, 891) Leaf) (1024, 1039, 1, 1104) Leaf))) (1040, 1071, 1, 1072)
     (Node (Node (Node (Node Leaf (1120, 1152, 2, 1121) Leaf) (1162, 1214, 2, 1163) Leaf)
     (1216, 1216, 1, 1231) (Node (Node Leaf (1217, 1229, 2, 1218) Leaf) (1232, 1326, 2, 1233)
     Leaf)) (1329, 1366, 1, 1377) (Node (Node (Node Leaf (4256, 4293, 1, 11520) Leaf)
     (4295, 4295, 1, 11559) Leaf) (4301, 4301, 1, 11565) (Node Leaf (5024, 5103, 1, 43888)
     Leaf)))))) (5104, 5109, 1, 5112) (Node (Node (Node (Node (Node (Node (Node Leaf
     (7312, 7354, 1, 4304) Leaf) (7357, 7359, 1, 4349) Leaf) (7680, 7828, 2, 7681) (Node (Node
     Leaf (7838, 7838, 1, 223) Leaf) (7840, 7934, 2, 7841) Leaf)) (7944, 7951, 1, 7936) (Node
     (Node (Node Leaf (7960, 7965, 1, 7952) Leaf) (7976, 7983, 1, 7968) Leaf)
     (7992, 7999, 1, 7984) (Node (Node Leaf (8008, 8013, 1, 8000) Leaf) (8025, 8031, 2, 8017)
     Leaf))) (8040, 8047, 1, 8032) (Node (Node (Node (Node Leaf (8072, 8079, 1, 8064) Leaf)
     (8088, 8095, 1, 8080) Leaf) (8104, 8111, 1, 8096) (Node (Node Leaf (8120, 8121, 1, 8112)
     Leaf) (8122, 8123, 1, 8048) Leaf)) (8124, 8124, 1, 8115) (Node (Node (Node Leaf
     (8136, 8139, 1, 8050) Leaf) (8140, 8140, 1, 8131) Leaf) (8152, 8153, 1, 8144) (Node Leaf
     (8154, 8155, 1, 8054) Leaf)))) (8168, 8169, 1, 8160) (Node (Node (Node (Node (Node Leaf
     (8170, 8171, 1, 8058) Leaf) (8172, 8172, 1, 8165) Leaf) (8184, 8185, 1, 8056) (Node (Node
     Leaf (8186, 8187, 1, 8060) Leaf) (8188, 8188, 1, 8179) Leaf)) (8486, 8486, 1, 969) (Node
     (Node (Node Leaf (8490, 8490, 1, 107) Leaf) (8491, 8491, 1, 229) Leaf) (8498, 8498, 1, 8526)
     (Node (Node Leaf (8544, 8559, 1, 8560) Leaf) (8579, 8579, 1, 8580) Leaf)))
     (9398, 9423, 1, 9424) (Node (Node (Node (Node Leaf (11264, 11311, 1, 11312) Leaf)
     (11360, 11360, 1, 11361) Leaf) (11362, 11362, 1, 619) (Node (Node Leaf
     (11363, 11363, 1, 7549) Leaf) (11364, 11364, 1, 637) Leaf)) (11367, 11371, 2, 11368) (Node
     (Node (Node Leaf (11373, 11373, 1, 593) Leaf) (11374, 11374, 1, 625) Leaf)
     (11375, 11375, 1, 592) (Node Leaf (11376, 11376, 1, 594) Leaf))))) (11378, 11378, 1, 11379)
     (Node (Node (Node (Node (Node (Node Leaf (11381, 11381, 1, 11382) Leaf)
     (11390, 11391, 1, 575) Leaf) (11392, 11490, 2, 11393) (Node (Node Leaf
     (11499, 11501, 2, 11500) Leaf) (11506, 11506, 1, 11507) Leaf)) (42560, 42604, 2, 42561) (Node
     (Node (Node Leaf (42624, 42650, 2, 42625) Leaf) (42786, 42798, 2, 42787) Leaf)
     (42802, 42862, 2, 42803) (Node (Node Leaf (42873, 42875, 2, 42874) Leaf)
     (42877, 42877, 1, 7545) Leaf))) (42878, 42886, 2, 42879) (Node (Node (Node (Node Leaf
     (42891, 42891, 1, 42892) Leaf) (42893, 42893, 1, 613) Leaf) (42896, 42898, 2, 42897) (Node
     (Node Leaf (42902, 42920, 2, 42903) Leaf) (42922, 42922, 1, 614) Leaf))
     (42923, 42923, 1, 604) (Node (Node (Node Leaf (42924, 42924, 1, 609) Leaf)
     (42925, 42925, 1, 620) Leaf) (42926, 42926, 1, 618) (Node Leaf (42928, 42928, 1, 670)
     Leaf)))) (42929, 42929, 1, 647) (Node (Node (Node (Node (Node Leaf (42930, 42930, 1, 669)
     Leaf) (42931, 42931, 1, 43859) Leaf) (42932, 42946, 2, 42933) (Node (Node Leaf
     (42948, 42948, 1, 42900) Leaf) (42949, 42949, 1, 642) Leaf)) (42950, 42950, 1, 7566) (Node
     (Node (Node Leaf (42951, 42953, 2, 42952) Leaf) (42960, 42960, 1, 42961) Leaf)
     (42966, 42968, 2, 42967) (Node Leaf (42997, 42997, 1, 42998) Leaf))) (65313, 65338, 1, 65345)
     (Node (Node (Node (Node Leaf (66560, 66599, 1, 66600) Leaf) (66736, 66771, 1, 66776) Leaf)
     (66928, 66938, 1, 66967) (Node (Node Leaf (66940, 66954, 1, 66979) Leaf)
     (66956, 66962, 1, 66995) Leaf)) (66964, 66965, 1, 67003) (Node (Node (Node Leaf
     (68736, 68786, 1, 68800) Leaf) (71840, 71871, 1, 71872) Leaf) (93760, 93791, 1, 93792) (Node
     Leaf (125184, 125217, 1, 125218) Leaf))))))"

fun in_ranges :: "(nat \<times> nat) list \<Rightarrow> nat \<Rightarrow> bool" where
  "in_ranges [] c = False"
| "in_ranges ((lo, hi) # rs) c = (if lo \<le> c \<and> c \<le> hi then True else in_ranges rs c)"

fun in_tree :: "(nat \<times> nat) search_tree \<Rightarrow> nat \<Rightarrow> bool" where
  "in_tree Leaf c = False"
| "in_tree (Node l (lo, hi) r) c =
     (if c < lo then in_tree l c else if hi < c then in_tree r c else True)"

definition isspace :: "nat \<Rightarrow> bool" where
  "isspace c = in_ranges space_ranges c"

definition isalnum :: "nat \<Rightarrow> bool" where
  "isalnum c = in_tree alnum_ranges c"

definition cased :: "nat \<Rightarrow> bool" where
  "cased c = in_tree cased_ranges c"

definition case_ignorable :: "nat \<Rightarrow> bool" where
  "case_ignorable c = in_tree case_ignorable_ranges c"

fun lookup_lower :: "(nat \<times> nat \<times> nat \<times> nat) search_tree \<Rightarrow> nat \<Rightarrow> nat" where
  "lookup_lower Leaf c = c"
| "lookup_lower (Node l (lo, hi, step, target) r) c =
     (if c < lo then lookup_lower l c
      else if hi < c then lookup_lower r c
      else if (c - lo) mod step = 0 then target + (c - lo) else c)"

subsection \<open>\<open>str.lower\<close>\<close>

text \<open>
  \<open>text.lower()\<close> maps the characters one by one, as \<open>do_lower\<close> in CPython's
  \<open>unicodeobject.c\<close> does. The full lowercase of a character is its one-character
  lowercase, except for U+0130 (304), which becomes U+0069 U+0307 (105, 775). A capital
  sigma, U+03A3 (931), becomes the final sigma U+03C2 (962) when a cased character
  precedes it and none follows, case-ignorable characters skipped, and the small sigma
  U+03C3 (963) otherwise. \<open>left\<close> holds the characters before the current one, nearest
  first; \<open>right\<close> those after it.
\<close>

definition to_lower_full :: "nat \<Rightarrow> pystr" where
  "to_lower_full c = (if c = 304 then [105, 775] else [lookup_lower lower_table c])"

definition handle_capital_sigma :: "pystr \<Rightarrow> pystr \<Rightarrow> nat" where
  "handle_capital_sigma left right =
     (let final_sigma =
        (case dropWhile case_ignorable left of
           [] \<Rightarrow> False
         | c # cs \<Rightarrow>
             if cased c
             then (case dropWhile case_ignorable right of [] \<Rightarrow> True | d # ds \<Rightarrow> \<not> cased d)
             else False)
      in if final_sigma then 962 else 963)"

definition lower_ucs4 :: "pystr \<Rightarrow> nat \<Rightarrow> pystr \<Rightarrow> pystr" where
  "lower_ucs4 left c right =
     (if c = 931 then [handle_capital_sigma left right] else to_lower_full c)"

fun do_lower :: "pystr \<Rightarrow> pystr \<Rightarrow> pystr \<Rightarrow> pystr" where
  "do_lower left [] rest = []"
| "do_lower left (c # cs) rest =
     lower_ucs4 left c (cs @ rest) @ do_lower (c # left) cs rest"

definition str_lower :: "pystr \<Rightarrow> pystr" where
  "str_lower s = do_lower [] s []"

subsection \<open>\<open>str.split\<close> and \<open>str.join\<close>\<close>

text \<open>
  \<open>text.split()\<close> with no separator: skip a run of whitespace, take the characters up
  to the next whitespace as one word, and go on; no empty word is ever produced.
\<close>

function str_split :: "pystr \<Rightarrow> pystr list" where
  "str_split s =
     (case dropWhile isspace s of
        [] \<Rightarrow> []
      | c # cs \<Rightarrow>
          (c # takeWhile (\<lambda>x. \<not> isspace x) cs)
            # str_split (dropWhile (\<lambda>x. \<not> isspace x) cs))"
  by pat_completeness auto
termination
proof (relation "measure length", goal_cases)
  case 1
  show ?case by simp
next
  case (2 s c cs)
  have "length (dropWhile (\<lambda>x. \<not> isspace x) cs) \<le> length cs"
    by (rule length_dropWhile_le)
  moreover have "length (dropWhile isspace s) \<le> length s"
    by (rule length_dropWhile_le)
  ultimately show ?case using 2 by simp
qed

declare str_split.simps [simp del]

text \<open>\<open>sep.join(words)\<close>.\<close>

fun str_join :: "pystr \<Rightarrow> pystr list \<Rightarrow> pystr" where
  "str_join sep [] = []"
| "str_join sep [w] = w"
| "str_join sep (w # v # ws) = w @ sep @ str_join sep (v # ws)"

section \<open>IndianLanguageNormalizer\<close>

text \<open>
  The class attribute \<open>LANGUAGES\<close>: a dict literal, kept as an association list in
  insertion order because the handlers take the position of a code among its keys.
\<close>

definition LANGUAGES :: "(string \<times> string) list" where
  "LANGUAGES =
     [(''hi'', ''Hindi''), (''bn'', ''Bengali''), (''mr'', ''Marathi''), (''kn'', ''Kannada''),
      (''te'', ''Telugu''), (''bh'', ''Bhojpuri''), (''cc'', ''Chhattisgarhi''), (''mg'', ''Magahi''),
      (''mt'', ''Maithili''), (''ta'', ''Tamil''), (''ml'', ''Malayalam'')]"

text \<open>The test \<open>c.isalnum() or c in ' .,!?;:'\<close> of the generator expression.\<close>

definition kept :: "nat \<Rightarrow> bool" where
  "kept c = (isalnum c \<or> c \<in> set (ustr '' .,!?;:''))"

text \<open>
  \<open>normalize(self, text, language='hi')\<close>: join the words of the text with single
  spaces, keep the characters that pass the test, lower-case the result.
\<close>

definition normalize :: "pystr \<Rightarrow> string \<Rightarrow> pystr" where
  "normalize text language =
     (let text1 = str_join (ustr '' '') (str_split text);
          text2 = filter kept text1
      in str_lower text2)"

subsection \<open>The normalizer as the specification describes it\<close>

text \<open>
  The specification describes the normalizer in words: whitespace runs are collapsed to
  single spaces, characters other than alphanumerics and the punctuation \<open>. , ! ? ; :\<close>
  are stripped, and the text is lower-cased. The following definitions follow those
  words, to be compared with \<open>normalize\<close> above. \<open>collapse_ws\<close> replaces every maximal
  run of whitespace by one space (32).
\<close>

function collapse_ws :: "pystr \<Rightarrow> pystr" where
  "collapse_ws [] = []"
| "collapse_ws (c # cs) =
     (if isspace c then 32 # collapse_ws (dropWhile isspace cs)
      else c # collapse_ws cs)"
  by pat_completeness auto
termination
  by (relation "measure length") (auto simp: length_dropWhile_le less_Suc_eq_le)

text \<open>
  The three steps in the order the specification lists them. The space is not in the
  punctuation set the specification names; it is kept here all the same, since the first
  step has just produced it.
\<close>

definition normalize_described :: "pystr \<Rightarrow> pystr" where
  "normalize_described text = str_lower (filter kept (collapse_ws text))"

text \<open>Removing leading and trailing whitespace, as \<open>str.strip()\<close> does.\<close>

definition lstrip :: "pystr \<Rightarrow> pystr" where
  "lstrip s = dropWhile isspace s"

definition rstrip :: "pystr \<Rightarrow> pystr" where
  "rstrip s = rev (dropWhile isspace (rev s))"

definition strip :: "pystr \<Rightarrow> pystr" where
  "strip s = rstrip (lstrip s)"

text \<open>A word: a non-empty string without whitespace.\<close>

definition word :: "pystr \<Rightarrow> bool" where
  "word w = (w \<noteq> [] \<and> list_all (\<lambda>x. \<not> isspace x) w)"

text \<open>
  A text of which the filter leaves something in every word, or which has one word at
  most: stripping leaves no space at either end and no two spaces side by side.
\<close>

definition keeps_words :: "pystr \<Rightarrow> bool" where
  "keeps_words s =
     (length (str_split s) \<le> 1 \<or> list_all (\<lambda>w. filter kept w \<noteq> []) (str_split s))"

subsection \<open>Checks of the tables\<close>

text \<open>
  Properties of all characters are read off the tables by functions that walk them:
  \<open>tree_meets\<close> tells whether a range of the tree may meet the interval from \<open>a\<close> to \<open>b\<close>;
  \<open>avoids\<close> tells that no entry of the lowercase table maps a code point of that
  interval (every second one, counted from \<open>a\<close>, if \<open>strided\<close>). A character is
  \<open>settled\<close> when the table leaves it as it is, and an entry is checked when its targets
  lie above the space and are settled.
\<close>

fun tree_meets :: "(nat \<times> nat) search_tree \<Rightarrow> nat \<Rightarrow> nat \<Rightarrow> bool" where
  "tree_meets Leaf a b = False"
| "tree_meets (Node l (lo, hi) r) a b =
     (if b < lo then tree_meets l a b
      else if lo \<le> a \<and> hi < a then tree_meets r a b
      else True)"

fun avoids :: "(nat \<times> nat \<times> nat \<times> nat) search_tree \<Rightarrow> nat \<Rightarrow> nat \<Rightarrow> bool \<Rightarrow> bool" where
  "avoids Leaf a b strided = True"
| "avoids (Node l (lo, hi, step, target) r) a b strided =
     (if b < lo then avoids l a b strided
      else if lo \<le> a \<and> hi < a then avoids r a b strided
      else step = 2 \<and> strided \<and> odd (a + lo)
           \<and> (lo \<le> a \<or> avoids l a b strided) \<and> (b \<le> hi \<or> avoids r a b strided))"

fun all_entries :: "('a \<Rightarrow> bool) \<Rightarrow> 'a search_tree \<Rightarrow> bool" where
  "all_entries P Leaf = True"
| "all_entries P (Node l e r) = (P e \<and> all_entries P l \<and> all_entries P r)"

definition entry_checked :: "nat \<times> nat \<times> nat \<times> nat \<Rightarrow> bool" where
  "entry_checked e =
     (case e of (lo, hi, step, target) \<Rightarrow>
        32 < target \<and> lo \<le> hi \<and> (step = 2 \<or> step = 1)
        \<and> avoids lower_table target (target + (hi - lo)) (step = 2 \<or> lo = hi))"

definition settled :: "nat \<Rightarrow> bool" where
  "settled d = (lookup_lower lower_table d = d)"

section \<open>Exceptions and HTTP responses\<close>

text \<open>
  Every exception the handlers can meet is a value. \<open>HTTPException\<close> carries its status
  code and detail; the others carry their message.
\<close>

datatype exn =
    HTTPException int string
  | RuntimeError string
  | IndexError string
  | ValueError string
  | TypeError string

text \<open>Decimal rendering of a number, as in an f-string.\<close>

function str_nat :: "nat \<Rightarrow> string" where
  "str_nat n =
     (if n < 10 then [''0123456789'' ! n]
      else str_nat (n div 10) @ [''0123456789'' ! (n mod 10)])"
  by pat_completeness auto
termination
  by (relation "measure id") auto

declare str_nat.simps [simp del]

definition str_int :: "int \<Rightarrow> string" where
  "str_int i = (if i < 0 then CHR ''-'' # str_nat (nat (- i)) else str_nat (nat i))"

text \<open>
  \<open>str(e)\<close>: the message of the exception; Starlette renders an \<open>HTTPException\<close> as its
  status code, a colon and its detail.
\<close>

fun str_exn :: "exn \<Rightarrow> string" where
  "str_exn (HTTPException status_code detail) = str_int status_code @ '': '' @ detail"
| "str_exn (RuntimeError msg) = msg"
| "str_exn (IndexError msg) = msg"
| "str_exn (ValueError msg) = msg"
| "str_exn (TypeError msg) = msg"

text \<open>
  What the client receives: the value the handler returned, with status 200, or the
  status code and detail of the \<open>HTTPException\<close> that left the handler.
\<close>

datatype 'a http = OK 'a | HTTPError int string

fun status_code :: "'a http \<Rightarrow> int" where
  "status_code (OK r) = 200"
| "status_code (HTTPError code detail) = code"

section \<open>Tensors\<close>

text \<open>
  The handlers use of the network's output nothing but its shape, so a float tensor is
  modelled by its shape. An index tensor (\<open>dtype=torch.long\<close>) keeps its elements as
  well, because an embedding checks them against its table.
\<close>

type_synonym shape = "nat list"

record long_tensor =
  dims :: shape
  elems :: "int list"

text \<open>\<open>torch.tensor([...], dtype=torch.long)\<close> of a flat list.\<close>

definition tensor :: "int list \<Rightarrow> long_tensor" where
  "tensor xs = \<lparr>dims = [length xs], elems = xs\<rparr>"

text \<open>
  \<open>torch.randint(0, high, sizes)\<close>: the generator is the stream of its coming draws;
  each element lies in \<open>[0, high)\<close>, and the generator moves on by the number of
  elements drawn.
\<close>

definition randint :: "(nat \<Rightarrow> nat) \<Rightarrow> nat \<Rightarrow> shape \<Rightarrow> long_tensor \<times> (nat \<Rightarrow> nat)" where
  "randint rng high sizes =
     (let n = prod_list sizes
      in (\<lparr>dims = sizes, elems = map (\<lambda>i. int (rng i mod high)) [0..<n]\<rparr>,
          \<lambda>i. rng (i + n)))"

text \<open>\<open>np.random.randn(n)\<close>: the next \<open>n\<close> samples of the generator.\<close>

definition randn :: "(nat \<Rightarrow> real) \<Rightarrow> nat \<Rightarrow> real list \<times> (nat \<Rightarrow> real)" where
  "randn rng n = (map rng [0..<n], \<lambda>i. rng (i + n))"

subsection \<open>Layers of \<open>torch.nn\<close>\<close>

text \<open>
  Each layer is the record of the sizes it was constructed with; its forward pass maps
  the shape of the input to the shape of the output, or raises where torch does.
\<close>

record Embedding =
  num_embeddings :: nat
  embedding_dim :: nat

record LSTM =
  input_size :: nat
  hidden_size :: nat
  bidirectional :: bool

record Linear =
  in_features :: nat
  out_features :: nat

definition Embedding_forward :: "Embedding \<Rightarrow> long_tensor \<Rightarrow> exn + shape" where
  "Embedding_forward m x =
     (if list_all (\<lambda>i. 0 \<le> i \<and> i < int (num_embeddings m)) (elems x)
      then Inr (dims x @ [embedding_dim m])
      else Inl (IndexError ''index out of range in self''))"

text \<open>An LSTM with \<open>batch_first=True\<close>; the number of layers does not show in the shape.\<close>

definition LSTM_forward :: "LSTM \<Rightarrow> shape \<Rightarrow> exn + shape" where
  "LSTM_forward m x =
     (if length x \<noteq> 2 \<and> length x \<noteq> 3
      then Inl (ValueError (''LSTM: Expected input to be 2D or 3D, got ''
                  @ str_nat (length x) @ ''D instead''))
      else if last x \<noteq> input_size m
      then Inl (RuntimeError (''input.size(-1) must be equal to input_size. Expected ''
                  @ str_nat (input_size m) @ '', got '' @ str_nat (last x)))
      else Inr (butlast x @ [hidden_size m * (if bidirectional m then 2 else 1)]))"

definition Linear_forward :: "Linear \<Rightarrow> shape \<Rightarrow> exn + shape" where
  "Linear_forward m x =
     (if x = [] \<or> last x \<noteq> in_features m
      then Inl (RuntimeError ''mat1 and mat2 shapes cannot be multiplied'')
      else Inr (butlast x @ [out_features m]))"

subsection \<open>Tensor operations\<close>

text \<open>\<open>x.unsqueeze(d)\<close> for a non-negative \<open>d\<close>.\<close>

definition unsqueeze :: "nat \<Rightarrow> shape \<Rightarrow> exn + shape" where
  "unsqueeze d x =
     (if d \<le> length x then Inr (take d x @ [1] @ drop d x)
      else Inl (IndexError ''Dimension out of range''))"

text \<open>
  \<open>x.expand(sizes)\<close> with as many sizes as \<open>x\<close> has dimensions; \<open>None\<close> stands for \<open>-1\<close>,
  which keeps the size, and a dimension of another size can be expanded only from 1.
\<close>

fun expand_dims :: "nat option list \<Rightarrow> shape \<Rightarrow> shape option" where
  "expand_dims [] [] = Some []"
| "expand_dims (None # sizes) (d # x) = map_option ((#) d) (expand_dims sizes x)"
| "expand_dims (Some n # sizes) (d # x) =
     (if d = n \<or> d = 1 then map_option ((#) n) (expand_dims sizes x) else None)"
| "expand_dims _ _ = None"

definition expand :: "nat option list \<Rightarrow> shape \<Rightarrow> exn + shape" where
  "expand sizes x =
     (case expand_dims sizes x of
        Some y \<Rightarrow> Inr y
      | None \<Rightarrow> Inl (RuntimeError ''The expanded size of the tensor must match the existing size''))"

text \<open>\<open>torch.cat(xs, dim=-1)\<close>: the shapes must agree in all but the last dimension.\<close>

definition cat_last :: "shape list \<Rightarrow> exn + shape" where
  "cat_last xs =
     (case xs of
        [] \<Rightarrow> Inl (RuntimeError ''torch.cat(): expected a non-empty list of Tensors'')
      | x # rest \<Rightarrow>
          if x \<noteq> [] \<and> list_all (\<lambda>y. y \<noteq> [] \<and> butlast y = butlast x) rest
          then Inr (butlast x @ [sum_list (map last xs)])
          else Inl (RuntimeError ''Sizes of tensors must match except in dimension''))"

text \<open>
  \<open>a + b\<close> broadcasts: the shapes are aligned at their last dimension, and two sizes go
  together when they are equal or one of them is 1. \<open>broadcast_rev\<close> walks the reversed
  shapes and reports the first pair of sizes that do not go together, with its position
  from the right.
\<close>

fun broadcast_rev :: "nat \<Rightarrow> shape \<Rightarrow> shape \<Rightarrow> (nat \<times> nat \<times> nat) + shape" where
  "broadcast_rev i [] ys = Inr ys"
| "broadcast_rev i xs [] = Inr xs"
| "broadcast_rev i (x # xs) (y # ys) =
     (if x = y \<or> y = 1 then map_sum id ((#) x) (broadcast_rev (Suc i) xs ys)
      else if x = 1 then map_sum id ((#) y) (broadcast_rev (Suc i) xs ys)
      else Inl (x, y, i))"

definition add_shapes :: "shape \<Rightarrow> shape \<Rightarrow> exn + shape" where
  "add_shapes a b =
     (case broadcast_rev 0 (rev a) (rev b) of
        Inr r \<Rightarrow> Inr (rev r)
      | Inl (x, y, i) \<Rightarrow>
          Inl (RuntimeError (''The size of tensor a ('' @ str_nat x
                 @ '') must match the size of tensor b ('' @ str_nat y
                 @ '') at non-singleton dimension ''
                 @ str_nat (max (length a) (length b) - 1 - i))))"

text \<open>\<open>x.cpu().numpy()[0]\<close> and \<open>x.shape[0]\<close>.\<close>

definition index0 :: "shape \<Rightarrow> exn + shape" where
  "index0 x =
     (case x of
        [] \<Rightarrow> Inl (IndexError ''too many indices for array'')
      | n # rest \<Rightarrow>
          if n = 0 then Inl (IndexError ''index 0 is out of bounds for axis 0 with size 0'')
          else Inr rest)"

definition shape0 :: "shape \<Rightarrow> exn + nat" where
  "shape0 x = (case x of [] \<Rightarrow> Inl (IndexError ''tuple index out of range'') | n # rest \<Rightarrow> Inr n)"

section \<open>The network\<close>

text \<open>
  The four module classes: \<open>__init__\<close> builds the layers from the sizes it is given,
  \<open>forward\<close> passes the input through them in the order of the source.
\<close>

record MultilingualTTSEncoder =
  enc_embedding :: Embedding
  enc_lstm :: LSTM
  enc_linear :: Linear

definition MultilingualTTSEncoder_init :: "nat \<Rightarrow> nat \<Rightarrow> nat \<Rightarrow> MultilingualTTSEncoder" where
  "MultilingualTTSEncoder_init vocab_size embedding_dim' hidden_dim =
     \<lparr>enc_embedding = \<lparr>num_embeddings = vocab_size, embedding_dim = embedding_dim'\<rparr>,
      enc_lstm = \<lparr>input_size = embedding_dim', hidden_size = hidden_dim, bidirectional = True\<rparr>,
      enc_linear = \<lparr>in_features = hidden_dim * 2, out_features = hidden_dim\<rparr>\<rparr>"

definition MultilingualTTSEncoder_forward :: "MultilingualTTSEncoder \<Rightarrow> long_tensor \<Rightarrow> exn + shape" where
  "MultilingualTTSEncoder_forward m x =
     (case Embedding_forward (enc_embedding m) x of Inl e \<Rightarrow> Inl e | Inr x1 \<Rightarrow>
     (case LSTM_forward (enc_lstm m) x1 of Inl e \<Rightarrow> Inl e | Inr x2 \<Rightarrow>
     (Linear_forward (enc_linear m) x2)))"

text \<open>
  The fusion of the transfer module is \<open>Linear\<close>, \<open>ReLU\<close>, \<open>Linear\<close>; the \<open>ReLU\<close> keeps the
  shape.
\<close>

record AccentStyleTransferModule =
  accent_embedding :: Embedding
  style_embedding :: Embedding
  fusion_0 :: Linear
  fusion_2 :: Linear

definition AccentStyleTransferModule_init :: "nat \<Rightarrow> nat \<Rightarrow> nat \<Rightarrow> AccentStyleTransferModule" where
  "AccentStyleTransferModule_init hidden_dim num_accents num_styles =
     \<lparr>accent_embedding = \<lparr>num_embeddings = num_accents, embedding_dim = hidden_dim\<rparr>,
      style_embedding = \<lparr>num_embeddings = num_styles, embedding_dim = hidden_dim\<rparr>,
      fusion_0 = \<lparr>in_features = hidden_dim * 3, out_features = hidden_dim\<rparr>,
      fusion_2 = \<lparr>in_features = hidden_dim, out_features = hidden_dim\<rparr>\<rparr>"

definition AccentStyleTransferModule_forward ::
  "AccentStyleTransferModule \<Rightarrow> shape \<Rightarrow> long_tensor \<Rightarrow> long_tensor \<Rightarrow> exn + shape" where
  "AccentStyleTransferModule_forward m encoder_output accent_id style_id =
     (case encoder_output of
        [batch_size, seq_len, hidden_dim] \<Rightarrow>
          (case Embedding_forward (accent_embedding m) accent_id of Inl e \<Rightarrow> Inl e | Inr a0 \<Rightarrow>
          (case unsqueeze 1 a0 of Inl e \<Rightarrow> Inl e | Inr a1 \<Rightarrow>
          (case expand [None, Some seq_len, None] a1 of Inl e \<Rightarrow> Inl e | Inr accent_emb \<Rightarrow>
          (case Embedding_forward (style_embedding m) style_id of Inl e \<Rightarrow> Inl e | Inr s0 \<Rightarrow>
          (case unsqueeze 1 s0 of Inl e \<Rightarrow> Inl e | Inr s1 \<Rightarrow>
          (case expand [None, Some seq_len, None] s1 of Inl e \<Rightarrow> Inl e | Inr style_emb \<Rightarrow>
          (case cat_last [encoder_output, accent_emb, style_emb] of Inl e \<Rightarrow> Inl e | Inr combined \<Rightarrow>
          (case Linear_forward (fusion_0 m) combined of Inl e \<Rightarrow> Inl e | Inr h \<Rightarrow>
           Linear_forward (fusion_2 m) h))))))))
      | _ \<Rightarrow> Inl (ValueError ''not enough values to unpack (expected 3)''))"

record MultilingualTTSDecoder =
  dec_lstm :: LSTM
  dec_linear :: Linear

definition MultilingualTTSDecoder_init :: "nat \<Rightarrow> nat \<Rightarrow> MultilingualTTSDecoder" where
  "MultilingualTTSDecoder_init hidden_dim mel_bins =
     \<lparr>dec_lstm = \<lparr>input_size = hidden_dim, hidden_size = hidden_dim, bidirectional = False\<rparr>,
      dec_linear = \<lparr>in_features = hidden_dim, out_features = mel_bins\<rparr>\<rparr>"

definition MultilingualTTSDecoder_forward :: "MultilingualTTSDecoder \<Rightarrow> shape \<Rightarrow> exn + shape" where
  "MultilingualTTSDecoder_forward m x =
     (case LSTM_forward (dec_lstm m) x of Inl e \<Rightarrow> Inl e | Inr x1 \<Rightarrow>
     (Linear_forward (dec_linear m) x1))"

text \<open>
  \<open>MultilingualTTS\<close>: the language embedding is built with \<open>embedding_dim\<close>, the encoder
  output it is added to has \<open>hidden_dim\<close> as its last dimension.
\<close>

record MultilingualTTS =
  language_embedding :: Embedding
  encoder :: MultilingualTTSEncoder
  transfer_module :: AccentStyleTransferModule
  decoder :: MultilingualTTSDecoder

definition MultilingualTTS_init ::
  "nat \<Rightarrow> nat \<Rightarrow> nat \<Rightarrow> nat \<Rightarrow> nat \<Rightarrow> nat \<Rightarrow> nat \<Rightarrow> MultilingualTTS" where
  "MultilingualTTS_init vocab_size num_languages num_accents num_styles embedding_dim' hidden_dim mel_bins =
     \<lparr>language_embedding = \<lparr>num_embeddings = num_languages, embedding_dim = embedding_dim'\<rparr>,
      encoder = MultilingualTTSEncoder_init vocab_size embedding_dim' hidden_dim,
      transfer_module = AccentStyleTransferModule_init hidden_dim num_accents num_styles,
      decoder = MultilingualTTSDecoder_init hidden_dim mel_bins\<rparr>"

definition MultilingualTTS_forward ::
  "MultilingualTTS \<Rightarrow> long_tensor \<Rightarrow> long_tensor \<Rightarrow> long_tensor \<Rightarrow> long_tensor \<Rightarrow> exn + shape" where
  "MultilingualTTS_forward m text_ids language_id accent_id style_id =
     (case MultilingualTTSEncoder_forward (encoder m) text_ids of Inl e \<Rightarrow> Inl e | Inr encoder_output \<Rightarrow>
     (case Embedding_forward (language_embedding m) language_id of Inl e \<Rightarrow> Inl e | Inr l0 \<Rightarrow>
     (case unsqueeze 1 l0 of Inl e \<Rightarrow> Inl e | Inr lang_emb \<Rightarrow>
     (case add_shapes encoder_output lang_emb of Inl e \<Rightarrow> Inl e | Inr encoder_output' \<Rightarrow>
     (case AccentStyleTransferModule_forward (transfer_module m) encoder_output' accent_id style_id of
        Inl e \<Rightarrow> Inl e
      | Inr transferred \<Rightarrow> MultilingualTTSDecoder_forward (decoder m) transferred)))))"

text \<open>
  \<open>MultilingualTTS(vocab_size=500)\<close>, with the defaults of the constructor: 11 languages,
  5 accents, 3 styles, \<open>embedding_dim=256\<close>, \<open>hidden_dim=512\<close>, \<open>mel_bins=80\<close>.
\<close>

definition default_model :: MultilingualTTS where
  "default_model = MultilingualTTS_init 500 11 5 3 256 512 80"

text \<open>The message of the exception that the forward pass of \<open>default_model\<close> raises.\<close>

definition size_mismatch :: string where
  "size_mismatch =
     ''The size of tensor a (512) must match the size of tensor b (256) at non-singleton dimension 2''"

section \<open>Requests and responses\<close>

text \<open>
  The pydantic models. The field \<open>text\<close> of the request is written \<open>text'\<close>. Request
  and response share three field names; those of the request are written with the
  record's name in front.
\<close>

record TTSRequest =
  text' :: pystr
  language :: string
  accent_id :: int
  style_id :: int
  speaker_id :: "int option"

record TTSResponse =
  status :: string
  message :: string
  audio_url :: "string option"
  duration :: "real option"
  language :: string
  accent_id :: int
  style_id :: int

text \<open>A request that passes the three checks of the handlers.\<close>

definition valid_request :: "TTSRequest \<Rightarrow> bool" where
  "valid_request request =
     (TTSRequest.language request \<in> set (map fst LANGUAGES)
      \<and> 0 \<le> TTSRequest.accent_id request \<and> TTSRequest.accent_id request < 5
      \<and> 0 \<le> TTSRequest.style_id request \<and> TTSRequest.style_id request < 3)"

section \<open>The server\<close>

text \<open>
  The state a handler runs in: the module globals \<open>model\<close> and \<open>model_loaded\<close>, the two
  random generators, the clock as \<open>datetime.now().strftime("%Y%m%d_%H%M%S")\<close> reads it,
  and the directory \<open>outputs\<close>, which is \<open>None\<close> as long as it does not exist and else
  maps the name of each file in it to the samples and the sample rate written there.
  Division of the floats is exact division of reals. Calls of the logger are left out.
\<close>

record wav_file =
  samples :: "real list"
  samplerate :: nat

record world =
  model :: "MultilingualTTS option"
  model_loaded :: bool
  torch_rng :: "nat \<Rightarrow> nat"
  numpy_rng :: "nat \<Rightarrow> real"
  now :: string
  outputs :: "(string \<rightharpoonup> wav_file) option"

text \<open>
  \<open>startup_event\<close>: the argument is the exception met while the model is built, if any;
  the handler catches it and leaves \<open>model_loaded\<close> false.
\<close>

definition startup_event :: "exn option \<Rightarrow> world \<Rightarrow> world" where
  "startup_event failure w =
     (case failure of
        None \<Rightarrow> w\<lparr>model := Some default_model, model_loaded := True\<rparr>
      | Some e \<Rightarrow> w\<lparr>model_loaded := False\<rparr>)"

text \<open>\<open>model(text_ids, language_id, accent_id, style_id)\<close>; the global may still be \<open>None\<close>.\<close>

definition call_model ::
  "MultilingualTTS option \<Rightarrow> long_tensor \<Rightarrow> long_tensor \<Rightarrow> long_tensor \<Rightarrow> long_tensor \<Rightarrow> exn + shape" where
  "call_model m text_ids language_id accent_id' style_id' =
     (case m of
        None \<Rightarrow> Inl (TypeError (CHR 0x27 # ''NoneType'' @ CHR 0x27 # '' object is not callable''))
      | Some net \<Rightarrow> MultilingualTTS_forward net text_ids language_id accent_id' style_id')"

text \<open>\<open>xs.index(x)\<close>.\<close>

fun list_index :: "'a list \<Rightarrow> 'a \<Rightarrow> exn + nat" where
  "list_index [] x = Inl (ValueError ''x is not in list'')"
| "list_index (y # ys) x = (if y = x then Inr 0 else map_sum id Suc (list_index ys x))"

text \<open>\<open>output_dir.mkdir(exist_ok=True)\<close>.\<close>

definition mkdir_exist_ok :: "world \<Rightarrow> world" where
  "mkdir_exist_ok w = (case outputs w of None \<Rightarrow> w\<lparr>outputs := Some Map.empty\<rparr> | Some d \<Rightarrow> w)"

text \<open>\<open>sf.write(path, audio, rate)\<close> creates or replaces the file; the directory must exist.\<close>

definition sf_write :: "world \<Rightarrow> string \<Rightarrow> real list \<Rightarrow> nat \<Rightarrow> exn + world" where
  "sf_write w name audio rate =
     (case outputs w of
        None \<Rightarrow> Inl (RuntimeError (''Error opening '' @ CHR 0x27 # ''outputs/'' @ name
                         @ CHR 0x27 # '': System error.''))
      | Some d \<Rightarrow> Inr (w\<lparr>outputs := Some (d(name \<mapsto> \<lparr>samples = audio, samplerate = rate\<rparr>))\<rparr>))"

subsection \<open>The handler \<open>synthesize\<close>\<close>

text \<open>
  The body of the \<open>try\<close> statement: the exception raised, or the response returned,
  together with the state it leaves.
\<close>

definition synthesize_try :: "world \<Rightarrow> TTSRequest \<Rightarrow> (exn + TTSResponse) \<times> world" where
  "synthesize_try w request =
     (if TTSRequest.language request \<notin> set (map fst LANGUAGES)
      then (Inl (HTTPException 400 (''Language '' @ TTSRequest.language request @ '' not supported'')), w)
      else if TTSRequest.accent_id request < 0 \<or> TTSRequest.accent_id request \<ge> 5
      then (Inl (HTTPException 400 ''accent_id must be 0-4''), w)
      else if TTSRequest.style_id request < 0 \<or> TTSRequest.style_id request \<ge> 3
      then (Inl (HTTPException 400 ''style_id must be 0-2''), w)
      else
        let normalized_text = normalize (text' request) (TTSRequest.language request);
            batch_size = 1;
            seq_len = 150;
            (text_ids, rng) = randint (torch_rng w) 500 [batch_size, seq_len];
            w1 = w\<lparr>torch_rng := rng\<rparr>
        in case list_index (map fst LANGUAGES) (TTSRequest.language request) of
             Inl e \<Rightarrow> (Inl e, w1)
           | Inr k \<Rightarrow>
       (let language_id = tensor [int k];
            accent_id' = tensor [TTSRequest.accent_id request];
            style_id' = tensor [TTSRequest.style_id request]
        in case call_model (model w1) text_ids language_id accent_id' style_id' of
             Inl e \<Rightarrow> (Inl e, w1)
           | Inr mel_spec \<Rightarrow>
       (let w2 = mkdir_exist_ok w1;
            timestamp = now w2;
            audio_file = ''tts_'' @ timestamp @ ''.wav''
        in case index0 mel_spec of
             Inl e \<Rightarrow> (Inl e, w2)
           | Inr mel_np \<Rightarrow>
       (case shape0 mel_np of
             Inl e \<Rightarrow> (Inl e, w2)
           | Inr frames \<Rightarrow>
       (let (audio, nrng) = randn (numpy_rng w2) (frames * 256);
            w3 = w2\<lparr>numpy_rng := nrng\<rparr>
        in case sf_write w3 audio_file audio 22050 of
             Inl e \<Rightarrow> (Inl e, w3)
           | Inr w4 \<Rightarrow>
       (let duration' = real (length audio) / 22050
        in (Inr \<lparr>status = ''success'',
                  message = ''Speech synthesized successfully'',
                  audio_url = Some (''/audio/'' @ audio_file),
                  duration = Some duration',
                  language = TTSRequest.language request,
                  accent_id = TTSRequest.accent_id request,
                  style_id = TTSRequest.style_id request\<rparr>, w4)))))))"

text \<open>
  The handler: the guard on \<open>model_loaded\<close>, then the \<open>try\<close> statement, whose
  \<open>except Exception\<close> clause answers every exception of the body with status 500 and
  the text of the exception.
\<close>

definition synthesize :: "world \<Rightarrow> TTSRequest \<Rightarrow> TTSResponse http \<times> world" where
  "synthesize w request =
     (if \<not> model_loaded w then (HTTPError 503 ''Model not loaded'', w)
      else case synthesize_try w request of
             (Inr response, w') \<Rightarrow> (OK response, w')
           | (Inl e, w') \<Rightarrow> (HTTPError 500 (str_exn e), w'))"

subsection \<open>The handler \<open>get_inference\<close>\<close>

text \<open>The second handler repeats the first with another file name and another message.\<close>


definition get_inference_try :: "world \<Rightarrow> TTSRequest \<Rightarrow> (exn + TTSResponse) \<times> world" where
  "get_inference_try w request =
     (if TTSRequest.language request \<notin> set (map fst LANGUAGES)
      then (Inl (HTTPException 400 (''Language '' @ TTSRequest.language request @ '' not supported'')), w)
      else if TTSRequest.accent_id request < 0 \<or> TTSRequest.accent_id request \<ge> 5
      then (Inl (HTTPException 400 ''accent_id must be 0-4''), w)
      else if TTSRequest.style_id request < 0 \<or> TTSRequest.style_id request \<ge> 3
      then (Inl (HTTPException 400 ''style_id must be 0-2''), w)
      else
        let normalized_text = normalize (text' request) (TTSRequest.language request);
            batch_size = 1;
            seq_len = 150;
            (text_ids, rng) = randint (torch_rng w) 500 [batch_size, seq_len];
            w1 = w\<lparr>torch_rng := rng\<rparr>
        in case list_index (map fst LANGUAGES) (TTSRequest.language request) of
             Inl e \<Rightarrow> (Inl e, w1)
           | Inr k \<Rightarrow>
       (let language_id = tensor [int k];
            accent_id' = tensor [TTSRequest.accent_id request];
            style_id' = tensor [TTSRequest.style_id request]
        in case call_model (model w1) text_ids language_id accent_id' style_id' of
             Inl e \<Rightarrow> (Inl e, w1)
           | Inr mel_spec \<Rightarrow>
       (let w2 = mkdir_exist_ok w1;
            timestamp = now w2;
            audio_file = ''inference_'' @ timestamp @ ''.wav''
        in case index0 mel_spec of
             Inl e \<Rightarrow> (Inl e, w2)
           | Inr mel_np \<Rightarrow>
       (case shape0 mel_np of
             Inl e \<Rightarrow> (Inl e, w2)
           | Inr frames \<Rightarrow>
       (let (audio, nrng) = randn (numpy_rng w2) (frames * 256);
            w3 = w2\<lparr>numpy_rng := nrng\<rparr>
        in case sf_write w3 audio_file audio 22050 of
             Inl e \<Rightarrow> (Inl e, w3)
           | Inr w4 \<Rightarrow>
       (let duration' = real (length audio) / 22050
        in (Inr \<lparr>status = ''success'',
                  message = ''Inference completed successfully'',
                  audio_url = Some (''/audio/'' @ audio_file),
                  duration = Some duration',
                  language = TTSRequest.language request,
                  accent_id = TTSRequest.accent_id request,
                  style_id = TTSRequest.style_id request\<rparr>, w4)))))))"

definition get_inference :: "world \<Rightarrow> TTSRequest \<Rightarrow> TTSResponse http \<times> world" where
  "get_inference w request =
     (if \<not> model_loaded w then (HTTPError 503 ''Model not loaded'', w)
      else case get_inference_try w request of
             (Inr response, w') \<Rightarrow> (OK response, w')
           | (Inl e, w') \<Rightarrow> (HTTPError 500 (str_exn e), w'))"

subsection \<open>The handler \<open>get_audio\<close>\<close>

text \<open>
  The path is \<open>outputs/filename\<close>, where the file name is a parameter of the route and
  holds no slash. When the directory exists, the path denotes the directory itself for
  the empty name and for \<open>.\<close>, its parent for \<open>..\<close>, and else the regular file of
  that name, if the handlers have written one.
\<close>

datatype path_entry = RegularFile wav_file | Directory

definition lookup_output :: "world \<Rightarrow> string \<Rightarrow> wav_file option" where
  "lookup_output w filename = (case outputs w of None \<Rightarrow> None | Some d \<Rightarrow> d filename)"

definition stat_output :: "world \<Rightarrow> string \<Rightarrow> path_entry option" where
  "stat_output w filename =
     (case outputs w of
        None \<Rightarrow> None
      | Some d \<Rightarrow>
          if filename \<in> set [[], ''.'', ''..''] then Some Directory
          else map_option RegularFile (d filename))"

text \<open>
  \<open>audio_path.exists()\<close> is true of a directory as well. The handler then returns a
  \<open>FileResponse\<close>, which raises when it is sent for a path that is not a regular file,
  and the server answers 500.
\<close>

record FileResponse =
  path :: string
  media_type :: string
  content :: wav_file

definition get_audio :: "world \<Rightarrow> string \<Rightarrow> FileResponse http" where
  "get_audio w filename =
     (let audio_path = ''outputs/'' @ filename
      in case stat_output w filename of
           None \<Rightarrow> HTTPError 404 ''Audio file not found''
         | Some (RegularFile f) \<Rightarrow>
             OK \<lparr>path = audio_path, media_type = ''audio/wav'', content = f\<rparr>
         | Some Directory \<Rightarrow> HTTPError 500 ''Internal Server Error'')"

subsection \<open>One endpoint with two names\<close>

text \<open>
  The synthesis endpoint as one function of the prefix of the file name and of the
  message of the response, to be compared with the two handlers above.
\<close>

definition endpoint_try :: "string \<Rightarrow> string \<Rightarrow> world \<Rightarrow> TTSRequest \<Rightarrow> (exn + TTSResponse) \<times> world" where
  "endpoint_try prefix msg w request =
     (if TTSRequest.language request \<notin> set (map fst LANGUAGES)
      then (Inl (HTTPException 400 (''Language '' @ TTSRequest.language request @ '' not supported'')), w)
      else if TTSRequest.accent_id request < 0 \<or> TTSRequest.accent_id request \<ge> 5
      then (Inl (HTTPException 400 ''accent_id must be 0-4''), w)
      else if TTSRequest.style_id request < 0 \<or> TTSRequest.style_id request \<ge> 3
      then (Inl (HTTPException 400 ''style_id must be 0-2''), w)
      else
        let normalized_text = normalize (text' request) (TTSRequest.language request);
            batch_size = 1;
            seq_len = 150;
            (text_ids, rng) = randint (torch_rng w) 500 [batch_size, seq_len];
            w1 = w\<lparr>torch_rng := rng\<rparr>
        in case list_index (map fst LANGUAGES) (TTSRequest.language request) of
             Inl e \<Rightarrow> (Inl e, w1)
           | Inr k \<Rightarrow>
       (let language_id = tensor [int k];
            accent_id' = tensor [TTSRequest.accent_id request];
            style_id' = tensor [TTSRequest.style_id request]
        in case call_model (model w1) text_ids language_id accent_id' style_id' of
             Inl e \<Rightarrow> (Inl e, w1)
           | Inr mel_spec \<Rightarrow>
       (let w2 = mkdir_exist_ok w1;
            timestamp = now w2;
            audio_file = prefix @ timestamp @ ''.wav''
        in case index0 mel_spec of
             Inl e \<Rightarrow> (Inl e, w2)
           | Inr mel_np \<Rightarrow>
       (case shape0 mel_np of
             Inl e \<Rightarrow> (Inl e, w2)
           | Inr frames \<Rightarrow>
       (let (audio, nrng) = randn (numpy_rng w2) (frames * 256);
            w3 = w2\<lparr>numpy_rng := nrng\<rparr>
        in case sf_write w3 audio_file audio 22050 of
             Inl e \<Rightarrow> (Inl e, w3)
           | Inr w4 \<Rightarrow>
       (let duration' = real (length audio) / 22050
        in (Inr \<lparr>status = ''success'',
                  message = msg,
                  audio_url = Some (''/audio/'' @ audio_file),
                  duration = Some duration',
                  language = TTSRequest.language request,
                  accent_id = TTSRequest.accent_id request,
                  style_id = TTSRequest.style_id request\<rparr>, w4)))))))"

definition endpoint :: "string \<Rightarrow> string \<Rightarrow> world \<Rightarrow> TTSRequest \<Rightarrow> TTSResponse http \<times> world" where
  "endpoint prefix msg w request =
     (if \<not> model_loaded w then (HTTPError 503 ''Model not loaded'', w)
      else case endpoint_try prefix msg w request of
             (Inr response, w') \<Rightarrow> (OK response, w')
           | (Inl e, w') \<Rightarrow> (HTTPError 500 (str_exn e), w'))"

text \<open>
  Two ways of looking at the outcome of a call that leave the prefix and the message
  out: the response without its message and its URL, and the file the call has written
  under its own prefix, if it has answered 200.
\<close>

definition unlabelled :: "TTSResponse \<Rightarrow> TTSResponse" where
  "unlabelled r = r\<lparr>message := [], audio_url := None\<rparr>"

definition artifact :: "string \<Rightarrow> world \<Rightarrow> TTSResponse http \<times> world \<Rightarrow> wav_file option" where
  "artifact prefix w result =
     (case fst result of
        OK r \<Rightarrow> lookup_output (snd result) (prefix @ now w @ ''.wav'')
      | HTTPError c d \<Rightarrow> None)"

subsection \<open>Sample states and requests\<close>

text \<open>
  A process before its startup event: the globals as the module initialises them, no
  directory \<open>outputs\<close> yet.
\<close>

definition idle_world :: world where
  "idle_world =
     \<lparr>model = None, model_loaded = False, torch_rng = (\<lambda>i. i), numpy_rng = (\<lambda>i. 0),
      now = ''20240101_120000'', outputs = None\<rparr>"

text \<open>The same process with one file in \<open>outputs\<close>.\<close>

definition stocked_world :: world where
  "stocked_world =
     idle_world\<lparr>outputs := Some [''tts_20240101_115959.wav'' \<mapsto> \<lparr>samples = [0, 1], samplerate = 22050\<rparr>]\<rparr>"

text \<open>
  A process whose network was built with \<open>embedding_dim = hidden_dim = 512\<close>, so that
  the language embedding is as wide as the output of the encoder.
\<close>

definition wide_world :: world where
  "wide_world =
     idle_world\<lparr>model := Some (MultilingualTTS_init 500 11 5 3 512 512 80), model_loaded := True\<rparr>"

definition hello_request :: TTSRequest where
  "hello_request =
     \<lparr>text' = ustr ''Hello'', language = ''hi'', accent_id = 0, style_id = 0, speaker_id = None\<rparr>"


section \<open>Properties of the character tables\<close>

lemma isspace_32: "isspace 32"
  by (simp add: isspace_def space_ranges_def)

lemma tree_meets_sound:
  "\<not> tree_meets T a b \<Longrightarrow> a \<le> c \<Longrightarrow> c \<le> b \<Longrightarrow> \<not> in_tree T c"
  by (induction T a b rule: tree_meets.induct) (auto split: if_splits)

lemma no_alnum_between:
  "\<not> tree_meets alnum_ranges a b \<Longrightarrow> a \<le> c \<and> c \<le> b \<Longrightarrow> \<not> isalnum c"
  unfolding isalnum_def by (blast dest: tree_meets_sound)

lemma space_not_alnum: "isspace c \<Longrightarrow> \<not> isalnum c"
proof -
  assume "isspace c"
  then consider "9 \<le> c \<and> c \<le> 13" | "28 \<le> c \<and> c \<le> 32" | "133 \<le> c \<and> c \<le> 133" | "160 \<le> c \<and> c \<le> 160"
    | "5760 \<le> c \<and> c \<le> 5760" | "8192 \<le> c \<and> c \<le> 8202" | "8232 \<le> c \<and> c \<le> 8233"
    | "8239 \<le> c \<and> c \<le> 8239" | "8287 \<le> c \<and> c \<le> 8287" | "12288 \<le> c \<and> c \<le> 12288"
    by (auto simp: isspace_def space_ranges_def split: if_splits)
  then show ?thesis
  proof cases
    case 1
    have "\<not> tree_meets alnum_ranges 9 13" by (simp add: alnum_ranges_def)
    from no_alnum_between [OF this 1] show ?thesis .
  next
    case 2
    have "\<not> tree_meets alnum_ranges 28 32" by (simp add: alnum_ranges_def)
    from no_alnum_between [OF this 2] show ?thesis .
  next
    case 3
    have "\<not> tree_meets alnum_ranges 133 133" by (simp add: alnum_ranges_def)
    from no_alnum_between [OF this 3] show ?thesis .
  next
    case 4
    have "\<not> tree_meets alnum_ranges 160 160" by (simp add: alnum_ranges_def)
    from no_alnum_between [OF this 4] show ?thesis .
  next
    case 5
    have "\<not> tree_meets alnum_ranges 5760 5760" by (simp add: alnum_ranges_def)
    from no_alnum_between [OF this 5] show ?thesis .
  next
    case 6
    have "\<not> tree_meets alnum_ranges 8192 8202" by (simp add: alnum_ranges_def)
    from no_alnum_between [OF this 6] show ?thesis .
  next
    case 7
    have "\<not> tree_meets alnum_ranges 8232 8233" by (simp add: alnum_ranges_def)
    from no_alnum_between [OF this 7] show ?thesis .
  next
    case 8
    have "\<not> tree_meets alnum_ranges 8239 8239" by (simp add: alnum_ranges_def)
    from no_alnum_between [OF this 8] show ?thesis .
  next
    case 9
    have "\<not> tree_meets alnum_ranges 8287 8287" by (simp add: alnum_ranges_def)
    from no_alnum_between [OF this 9] show ?thesis .
  next
    case 10
    have "\<not> tree_meets alnum_ranges 12288 12288" by (simp add: alnum_ranges_def)
    from no_alnum_between [OF this 10] show ?thesis .
  qed
qed

lemma avoids_sound:
  "avoids T a b strided \<Longrightarrow> a \<le> x \<Longrightarrow> x \<le> b \<Longrightarrow> (strided \<Longrightarrow> even (x - a))
   \<Longrightarrow> lookup_lower T x = x"
proof (induction T a b strided rule: avoids.induct)
  case (1 a b strided)
  then show ?case by simp
next
  case (2 l lo hi step target r a b strided)
  show ?case
  proof (cases "b < lo")
    case True
    with 2 show ?thesis by simp
  next
    case nb: False
    show ?thesis
    proof (cases "lo \<le> a \<and> hi < a")
      case True
      with nb 2 show ?thesis by simp
    next
      case False
      with nb "2.prems"(1) have st: "step = 2" "strided" "odd (a + lo)"
        and l: "lo \<le> a \<or> avoids l a b strided" and r: "b \<le> hi \<or> avoids r a b strided"
        by auto
      from st "2.prems" have ev: "even (x - a)" by simp
      consider "x < lo" | "hi < x" "lo \<le> x" | "lo \<le> x" "x \<le> hi" by linarith
      then show ?thesis
      proof cases
        case 1
        with l "2.prems" have "avoids l a b strided" by auto
        with 1 nb False "2.IH"(3) "2.prems" st show ?thesis by simp
      next
        case 2
        with r "2.prems" have "avoids r a b strided" by auto
        with 2 nb False "2.IH"(4) "2.prems" st show ?thesis by simp
      next
        case 3
        from ev "2.prems"(2) st(3) 3 have "(x - lo) mod 2 = 1"
          by presburger
        with 3 st(1) show ?thesis by simp
      qed
    qed
  qed
qed

lemma lookup_cases:
  assumes "lookup_lower T c \<noteq> c"
  shows "\<exists>lo hi step target. (lo, hi, step, target) \<in> set_search_tree T \<and> lo \<le> c \<and> c \<le> hi
        \<and> (c - lo) mod step = 0 \<and> lookup_lower T c = target + (c - lo)"
  using assms
proof (induction T c rule: lookup_lower.induct)
  case (1 c)
  then show ?case by simp
next
  case (2 l lo hi step target r c)
  consider "c < lo" | "\<not> c < lo" "hi < c" | "\<not> c < lo" "\<not> hi < c" by blast
  then show ?case
  proof cases
    case 1
    with 2 obtain lo' hi' step' target' where "(lo', hi', step', target') \<in> set_search_tree l"
      "lo' \<le> c" "c \<le> hi'" "(c - lo') mod step' = 0" "lookup_lower l c = target' + (c - lo')"
      by auto
    with 1 show ?thesis by (intro exI [of _ lo'] exI [of _ hi'] exI [of _ step'] exI [of _ target']) simp
  next
    case 2
    with "2.IH"(2) "2.prems" obtain lo' hi' step' target' where "(lo', hi', step', target') \<in> set_search_tree r"
      "lo' \<le> c" "c \<le> hi'" "(c - lo') mod step' = 0" "lookup_lower r c = target' + (c - lo')"
      by auto
    with 2 show ?thesis by (intro exI [of _ lo'] exI [of _ hi'] exI [of _ step'] exI [of _ target']) simp
  next
    case 3
    with "2.prems" have "(c - lo) mod step = 0" by (auto split: if_splits)
    with 3 show ?thesis by (intro exI [of _ lo] exI [of _ hi] exI [of _ step] exI [of _ target]) simp
  qed
qed

lemma all_entriesD: "all_entries P T \<Longrightarrow> e \<in> set_search_tree T \<Longrightarrow> P e"
  by (induction T) auto

lemma lower_table_checked: "all_entries entry_checked lower_table"
  by (simp add: lower_table_def entry_checked_def)

lemma lookup_image:
  assumes "lookup_lower lower_table c \<noteq> c"
  shows "settled (lookup_lower lower_table c) \<and> 32 < lookup_lower lower_table c"
proof -
  from lookup_cases [OF assms] obtain lo hi step target where
    e: "(lo, hi, step, target) \<in> set_search_tree lower_table" and c: "lo \<le> c" "c \<le> hi"
    and m: "(c - lo) mod step = 0" and v: "lookup_lower lower_table c = target + (c - lo)"
    by auto
  from all_entriesD [OF lower_table_checked e]
  have t: "32 < target" and a: "avoids lower_table target (target + (hi - lo)) (step = 2 \<or> lo = hi)"
    unfolding entry_checked_def prod.case by blast+
  have "even (c - lo)" if "step = 2 \<or> lo = hi"
    using that m c by auto
  with avoids_sound [OF a, of "target + (c - lo)"] c
  have "lookup_lower lower_table (target + (c - lo)) = target + (c - lo)" by simp
  with v t show ?thesis by (simp add: settled_def)
qed

lemma lookup_settled: "settled (lookup_lower lower_table c)"
  using lookup_image [of c] by (cases "lookup_lower lower_table c = c") (simp_all add: settled_def)

lemma lookup_32: "lookup_lower lower_table c = 32 \<Longrightarrow> c = 32"
  using lookup_image [of c] by (cases "lookup_lower lower_table c = c") simp_all

lemma settled_consts: "settled 962" "settled 963" "settled 105" "settled 775" "settled 32"
  by (simp_all add: settled_def lower_table_def)

lemma unsettled_consts: "\<not> settled 931" "\<not> settled 304"
  by (simp_all add: settled_def lower_table_def)

lemma handle_capital_sigma_cases:
  "handle_capital_sigma left right = 962 \<or> handle_capital_sigma left right = 963"
  by (simp add: handle_capital_sigma_def Let_def)

lemma lower_ucs4_settled: "d \<in> set (lower_ucs4 left c right) \<Longrightarrow> settled d"
  using handle_capital_sigma_cases [of left right] settled_consts lookup_settled [of c]
  by (auto simp: lower_ucs4_def to_lower_full_def split: if_splits)

lemma lower_ucs4_of_settled: "settled c \<Longrightarrow> lower_ucs4 left c right = [c]"
  using unsettled_consts by (auto simp: lower_ucs4_def to_lower_full_def settled_def)

lemma lower_ucs4_nonempty: "lower_ucs4 left c right \<noteq> []"
  by (simp add: lower_ucs4_def to_lower_full_def)

lemma lower_ucs4_no_32: "c \<noteq> 32 \<Longrightarrow> 32 \<notin> set (lower_ucs4 left c right)"
  using handle_capital_sigma_cases [of left right] lookup_32 [of c]
  by (auto simp: lower_ucs4_def to_lower_full_def split: if_splits)

lemma do_lower_settled: "list_all settled (do_lower left x right)"
  by (induction x arbitrary: left) (auto simp: list_all_iff dest: lower_ucs4_settled)

lemma do_lower_of_settled: "list_all settled x \<Longrightarrow> do_lower left x right = x"
  by (induction x arbitrary: left) (simp_all add: lower_ucs4_of_settled)

lemma str_lower_idem: "str_lower (str_lower s) = str_lower s"
  by (simp add: str_lower_def do_lower_of_settled do_lower_settled)

lemma do_lower_append:
  "do_lower left (a @ b) right = do_lower left a (b @ right) @ do_lower (rev a @ left) b right"
  by (induction a arbitrary: left) simp_all

section \<open>Properties of the normalizer\<close>

subsection \<open>Splitting and joining\<close>

lemma str_split_Nil: "dropWhile isspace s = [] \<Longrightarrow> str_split s = []"
  by (subst str_split.simps) (simp only: list.case)

lemma str_split_Cons:
  "dropWhile isspace s = c # cs \<Longrightarrow>
   str_split s = (c # takeWhile (\<lambda>x. \<not> isspace x) cs) # str_split (dropWhile (\<lambda>x. \<not> isspace x) cs)"
  by (subst str_split.simps) (simp only: list.case)

lemma str_split_words:
  "w \<in> set (str_split s) \<Longrightarrow> w \<noteq> [] \<and> list_all (\<lambda>x. \<not> isspace x) w \<and> set w \<subseteq> set s"
proof (induction s rule: str_split.induct)
  case (1 s)
  show ?case
  proof (cases "dropWhile isspace s")
    case Nil
    with 1(2) show ?thesis by (simp add: str_split_Nil)
  next
    case (Cons c cs)
    have c: "\<not> isspace c" using Cons hd_dropWhile [of isspace s] by fastforce
    have sub: "set (c # cs) \<subseteq> set s" using Cons set_dropWhileD [of _ isspace s] by (metis subsetI)
    from 1(2) Cons consider "w = c # takeWhile (\<lambda>x. \<not> isspace x) cs"
      | "w \<in> set (str_split (dropWhile (\<lambda>x. \<not> isspace x) cs))"
      by (auto simp: str_split_Cons)
    then show ?thesis
    proof cases
      case 1
      have "set (takeWhile (\<lambda>x. \<not> isspace x) cs) \<subseteq> set cs" by (auto dest: set_takeWhileD)
      moreover have "list_all (\<lambda>x. \<not> isspace x) (takeWhile (\<lambda>x. \<not> isspace x) cs)"
        by (auto simp: list_all_iff dest: set_takeWhileD)
      ultimately show ?thesis using 1 c sub by auto
    next
      case 2
      from "1.IH" [OF Cons 2] have "w \<noteq> []" "list_all (\<lambda>x. \<not> isspace x) w"
        "set w \<subseteq> set (dropWhile (\<lambda>x. \<not> isspace x) cs)" by auto
      moreover have "set (dropWhile (\<lambda>x. \<not> isspace x) cs) \<subseteq> set cs" by (auto dest: set_dropWhileD)
      ultimately show ?thesis using sub by auto
    qed
  qed
qed

lemma str_split_word_append:
  assumes "word w" and "r = [] \<or> isspace (hd r)"
  shows "str_split (w @ r) = w # str_split r"
proof -
  from assms(1) obtain c cs where w: "w = c # cs" and c: "\<not> isspace c"
    and cs: "list_all (\<lambda>x. \<not> isspace x) cs"
    by (cases w) (auto simp: word_def)
  have d: "dropWhile isspace (w @ r) = c # (cs @ r)" using w c by simp
  have t: "takeWhile (\<lambda>x. \<not> isspace x) (cs @ r) = cs"
    using cs assms(2) by (cases r) (auto simp: list_all_iff takeWhile_append)
  have dr: "dropWhile (\<lambda>x. \<not> isspace x) (cs @ r) = r"
    using cs assms(2) by (cases r) (auto simp: list_all_iff dropWhile_append)
  show ?thesis using str_split_Cons [OF d] t dr w by simp
qed

lemma str_split_space: "str_split (32 # s) = str_split s"
  by (subst str_split.simps, subst (2) str_split.simps) (simp add: isspace_32)

lemma str_split_join:
  "list_all word ws \<Longrightarrow> str_split (str_join [32] ws) = ws"
proof (induction ws rule: induct_list012)
  case 1
  then show ?case by (simp add: str_split_Nil)
next
  case (2 w)
  then show ?case using str_split_word_append [of w "[]"] by (simp add: str_split_Nil)
next
  case (3 w v ws)
  have "str_split (w @ 32 # str_join [32] (v # ws)) = w # str_split (32 # str_join [32] (v # ws))"
    using 3(3) by (intro str_split_word_append) (auto simp: isspace_32)
  then show ?case using 3 by (simp add: str_split_space)
qed



lemma str_split_all_words: "list_all word (str_split s)"
  using str_split_words [of _ s] by (auto simp: list_all_iff word_def)

lemma set_str_join: "set (str_join [32] ws) \<subseteq> insert (32) (\<Union> (set ` set ws))"
  by (induction ws rule: induct_list012) auto

lemma rstrip_Cons:
  "rstrip (a # x) = (if list_all isspace x then (if isspace a then [] else [a]) else a # rstrip x)"
  by (auto simp: rstrip_def dropWhile_append list_all_iff)

lemma rstrip_Nil [simp]: "rstrip [] = []"
  by (simp add: rstrip_def)

lemma rstrip_all_space: "list_all isspace x \<Longrightarrow> rstrip x = []"
  by (simp add: rstrip_def list_all_iff)

lemma rstrip_dropWhile: "rstrip (dropWhile isspace x) = dropWhile isspace (rstrip x)"
proof (induction x)
  case Nil
  show ?case by simp
next
  case (Cons a x)
  show ?case
  proof (cases "isspace a")
    case True
    then show ?thesis using Cons
      by (auto simp: rstrip_Cons rstrip_all_space list_all_iff dest: set_dropWhileD)
  next
    case False
    then show ?thesis by (auto simp: rstrip_Cons)
  qed
qed

lemma collapse_word_append:
  "list_all (\<lambda>x. \<not> isspace x) w \<Longrightarrow> collapse_ws (w @ t) = w @ collapse_ws t"
  by (induction w) auto

lemma rstrip_word_append:
  "word w \<Longrightarrow> rstrip (w @ r) = (if list_all isspace r then w else w @ rstrip r)"
proof (induction w)
  case Nil
  then show ?case by (simp add: word_def)
next
  case (Cons a w)
  show ?case
  proof (cases "w = []")
    case True
    with Cons.prems show ?thesis by (auto simp: rstrip_Cons word_def)
  next
    case False
    with Cons.prems have w: "word w" and a: "\<not> isspace a" by (auto simp: word_def)
    from w have ns: "\<not> list_all isspace (w @ r)" by (cases w) (auto simp: word_def)
    show ?thesis using Cons.IH [OF w] ns by (simp add: rstrip_Cons)
  qed
qed

lemma str_split_eq_Nil: "str_split s = [] \<longleftrightarrow> list_all isspace s"
proof (cases "dropWhile isspace s")
  case Nil
  then show ?thesis by (simp add: str_split_Nil list_all_iff)
next
  case (Cons c cs)
  then have "\<not> list_all isspace s" by (auto simp: list_all_iff dropWhile_eq_Nil_conv [symmetric] simp del: dropWhile_eq_Nil_conv)
  then show ?thesis using str_split_Cons [OF Cons] by simp
qed

lemma str_join_Cons:
  "str_join sep (w # ws) = (if ws = [] then w else w @ sep @ str_join sep ws)"
  by (cases ws) auto

lemma join_split_collapse:
  "str_join [32] (str_split s) = collapse_ws (strip s)"
proof (induction s rule: str_split.induct)
  case (1 s)
  show ?case
  proof (cases "dropWhile isspace s")
    case Nil
    have "strip s = []" unfolding strip_def lstrip_def Nil by simp
    then show ?thesis using str_split_Nil [OF Nil] by simp
  next
    case (Cons c cs)
    define w where "w = c # takeWhile (\<lambda>x. \<not> isspace x) cs"
    define r where "r = dropWhile (\<lambda>x. \<not> isspace x) cs"
    have c: "\<not> isspace c" using Cons hd_dropWhile [of isspace s] by fastforce
    have w: "word w" using c by (auto simp: w_def word_def list_all_iff dest: set_takeWhileD)
    have wns: "list_all (\<lambda>x. \<not> isspace x) w" using w by (simp add: word_def)
    have wr: "lstrip s = w @ r" using Cons by (simp add: w_def r_def lstrip_def)
    have sp: "str_split s = w # str_split r" using str_split_Cons [OF Cons] by (simp add: w_def r_def)
    have IH: "str_join [32] (str_split r) = collapse_ws (strip r)"
      using "1.IH" [OF Cons] by (simp add: r_def)
    show ?thesis
    proof (cases "list_all isspace r")
      case True
      then have "str_split r = []" by (simp add: str_split_eq_Nil)
      moreover have "strip s = w" using True wr rstrip_word_append [OF w, of r] by (simp add: strip_def)
      ultimately show ?thesis using sp collapse_word_append [OF wns, of "[]"] by simp
    next
      case False
      then have ne: "str_split r \<noteq> []" by (simp add: str_split_eq_Nil)
      from False obtain a r' where r: "r = a # r'" by (cases r) auto
      have a: "isspace a" using r hd_dropWhile [of "\<lambda>x. \<not> isspace x" cs] by (auto simp: r_def)
      have nr': "\<not> list_all isspace r'" using False r a by simp
      have "strip s = w @ rstrip r" using False wr rstrip_word_append [OF w, of r] by (simp add: strip_def)
      then have "collapse_ws (strip s) = w @ collapse_ws (rstrip r)"
        by (simp add: collapse_word_append [OF wns])
      also have "rstrip r = a # rstrip r'" using r nr' by (simp add: rstrip_Cons)
      also have "collapse_ws (a # rstrip r') = 32 # collapse_ws (dropWhile isspace (rstrip r'))"
        using a by simp
      also have "dropWhile isspace (rstrip r') = strip r"
        using r a by (simp add: strip_def lstrip_def rstrip_dropWhile)
      finally have "collapse_ws (strip s) = w @ 32 # collapse_ws (strip r)" .
      then show ?thesis using sp ne IH by (simp add: str_join_Cons)
    qed
  qed
qed

subsection \<open>A second pass over a normalized text\<close>

lemma kept_32: "kept 32"
  by (simp add: kept_def ustr_def)

lemma punct_not_space: "c \<in> set (ustr '' .,!?;:'') \<Longrightarrow> isspace c \<Longrightarrow> c = 32"
  by (auto simp: ustr_def isspace_def space_ranges_def)

lemma kept_space: "kept c \<Longrightarrow> isspace c \<Longrightarrow> c = 32"
  using space_not_alnum [of c] punct_not_space [of c] by (auto simp: kept_def)

lemma filter_kept_join:
  "filter kept (str_join [32] ws) = str_join [32] (map (filter kept) ws)"
  by (induction ws rule: induct_list012) (simp_all add: kept_32)

lemma word_filter_kept: "word w \<Longrightarrow> filter kept w \<noteq> [] \<Longrightarrow> word (filter kept w)"
  by (auto simp: word_def list_all_iff)

lemma do_lower_nonempty: "w \<noteq> [] \<Longrightarrow> do_lower left w right \<noteq> []"
  by (cases w) (simp_all add: lower_ucs4_nonempty)

lemma do_lower_no_32:
  "list_all (\<lambda>x. \<not> isspace x) w \<Longrightarrow> 32 \<notin> set (do_lower left w right)"
proof (induction w arbitrary: left)
  case Nil
  show ?case by simp
next
  case (Cons c w)
  then have "c \<noteq> 32" using isspace_32 by auto
  from lower_ucs4_no_32 [OF this] Cons show ?case by simp
qed

lemma do_lower_word:
  assumes "word w" "list_all kept (do_lower left w right)"
  shows "word (do_lower left w right)"
proof -
  have "\<not> isspace d" if "d \<in> set (do_lower left w right)" for d
  proof
    assume "isspace d"
    moreover from that assms(2) have "kept d" by (simp add: list_all_iff)
    ultimately have "d = 32" by (simp add: kept_space)
    with that do_lower_no_32 [of w left right] assms(1) show False by (simp add: word_def)
  qed
  with do_lower_nonempty [of w left right] assms(1) show ?thesis
    by (simp add: word_def list_all_iff)
qed

lemma do_lower_join:
  "list_all word ws \<Longrightarrow> list_all kept (do_lower left (str_join [32] ws) right)
   \<Longrightarrow> \<exists>ws'. list_all word ws' \<and> do_lower left (str_join [32] ws) right = str_join [32] ws'"
proof (induction ws arbitrary: left rule: induct_list012)
  case 1
  show ?case by (intro exI [of _ "[]"]) simp
next
  case (2 w)
  then have "word (do_lower left w right)" using do_lower_word [of w left right] by simp
  then show ?case by (intro exI [of _ "[do_lower left w right]"]) simp
next
  case (3 w v ws)
  let ?rest = "str_join [32] (v # ws)"
  have eq: "do_lower left (str_join [32] (w # v # ws)) right
      = do_lower left w (32 # ?rest @ right) @ 32 # do_lower (32 # rev w @ left) ?rest right"
    using do_lower_append [of left w "32 # ?rest" right]
    by (simp add: lower_ucs4_of_settled settled_consts)
  with "3.prems"(2) have k1: "list_all kept (do_lower left w (32 # ?rest @ right))"
    and k2: "list_all kept (do_lower (32 # rev w @ left) ?rest right)"
    by simp_all
  from "3.prems"(1) have w: "word w" and r: "list_all word (v # ws)" by simp_all
  from "3.IH"(2) [OF r k2] obtain ws' where ws': "list_all word ws'"
    "do_lower (32 # rev w @ left) ?rest right = str_join [32] ws'" by blast
  have ne: "ws' \<noteq> []"
  proof
    assume "ws' = []"
    with ws'(2) have "do_lower (32 # rev w @ left) ?rest right = []" by simp
    moreover from r have "?rest \<noteq> []" by (cases ws) (auto simp: word_def)
    ultimately show False using do_lower_nonempty by blast
  qed
  have w': "word (do_lower left w (32 # ?rest @ right))" by (rule do_lower_word [OF w k1])
  show ?case
    using eq ws' w' ne
    by (intro exI [of _ "do_lower left w (32 # ?rest @ right) # ws'"]) (simp add: str_join_Cons)
qed

lemma normalize_fixed:
  assumes "str_join [32] (str_split t) = t" "list_all kept t" "str_lower t = t"
  shows "normalize t lang = t"
  using assms by (simp add: normalize_def ustr_def list_all_iff)

lemma normalize_Nil: "normalize [] lang = []"
  by (simp add: normalize_def str_split_Nil str_lower_def)

lemma normalize_idem:
  assumes "keeps_words s" "list_all kept (normalize s lang)"
  shows "normalize (normalize s lang) lang' = normalize s lang"
proof -
  let ?ws = "str_split s"
  let ?t = "normalize s lang"
  have t: "?t = do_lower [] (str_join [32] (map (filter kept) ?ws)) []"
    by (simp add: normalize_def ustr_def filter_kept_join str_lower_def)
  show ?thesis
  proof (cases "list_all (\<lambda>w. filter kept w \<noteq> []) ?ws")
    case True
    then have "list_all word (map (filter kept) ?ws)"
      using str_split_all_words [of s] by (auto simp: list_all_iff word_filter_kept)
    from do_lower_join [OF this] assms(2) t obtain ws' where
      "list_all word ws'" "?t = str_join [32] ws'" by auto
    then have j: "str_join [32] (str_split ?t) = ?t" by (simp add: str_split_join)
    have l: "str_lower ?t = ?t" by (simp add: normalize_def Let_def str_lower_idem)
    show ?thesis by (rule normalize_fixed [OF j assms(2) l])
  next
    case False
    with assms(1) have "length ?ws \<le> 1" by (simp add: keeps_words_def)
    with False obtain w where "?ws = [w]" "filter kept w = []"
      by (cases ?ws) auto
    with t have "?t = []" by simp
    then show ?thesis by (simp add: normalize_Nil)
  qed
qed

subsection \<open>Some characters\<close>

lemma kept_ascii:
  "kept 97" "kept 98" "kept 101" "kept 105" "kept 108" "kept 109" "kept 69" "kept 33"
  "\<not> kept 64" "\<not> kept 45" "kept 304" "\<not> kept 775"
  by (simp_all add: kept_def ustr_def isalnum_def alnum_ranges_def)

lemma isspace_ascii:
  "\<not> isspace 97" "\<not> isspace 98" "\<not> isspace 101" "\<not> isspace 105" "\<not> isspace 108" "\<not> isspace 109"
  "\<not> isspace 69" "\<not> isspace 33" "\<not> isspace 64" "\<not> isspace 45" "\<not> isspace 304" "\<not> isspace 775"
  by (simp_all add: isspace_def space_ranges_def)

lemma lower_ascii:
  "lower_ucs4 left 97 right = [97]" "lower_ucs4 left 98 right = [98]"
  "lower_ucs4 left 101 right = [101]" "lower_ucs4 left 105 right = [105]"
  "lower_ucs4 left 108 right = [108]" "lower_ucs4 left 109 right = [109]"
  "lower_ucs4 left 69 right = [101]" "lower_ucs4 left 33 right = [33]"
  "lower_ucs4 left 32 right = [32]" "lower_ucs4 left 304 right = [105, 775]"
  by (simp_all add: lower_ucs4_def to_lower_full_def lower_table_def)

lemmas eval_simps = normalize_def ustr_def str_split.simps str_lower_def
  kept_ascii kept_32 isspace_ascii isspace_32 lower_ascii

lemma ex_at: "normalize (ustr ''a @ b'') ''hi'' = [97, 32, 32, 98]"
  by (simp add: eval_simps)

lemma ex_at2: "normalize [97, 32, 32, 98] ''hi'' = [97, 32, 98]"
  by (simp add: eval_simps)

section \<open>Claims about the normalizer\<close>

text \<open>
  Claim C4 says that normalization is idempotent on every input. It is not: the filter
  runs after the whitespace has been collapsed, so a stripped character that stood
  between two spaces leaves both of them behind, and a second pass joins them.
  On \<open>a @ b\<close> the first pass gives \<open>a\<close>, two spaces, \<open>b\<close>, and the second pass
  gives \<open>a b\<close>.
\<close>

theorem normalize_idempotent_counterexample:
  "normalize (normalize (ustr ''a @ b'') ''hi'') ''hi'' \<noteq> normalize (ustr ''a @ b'') ''hi''"
  by (simp add: ex_at ex_at2)

text \<open>
  Lower-casing can undo the filter as well: U+0130 is alphanumeric, its lowercase ends
  in the combining dot U+0307, which is not, and a second pass strips it.
\<close>

lemma normalize_dotted_I:
  "normalize [304] ''hi'' = [105, 775] \<and> normalize [105, 775] ''hi'' = [105]"
  by (simp add: eval_simps)

text \<open>
  Claim C4, amended: normalization is idempotent on every text \<open>s\<close> such that no
  whitespace-separated word of \<open>s\<close> consists of stripped characters only, unless it is
  the only word, and such that \<open>normalize(s)\<close> holds no character that the filter
  strips.
\<close>

theorem normalize_idempotent_when_kept:
  "keeps_words s \<Longrightarrow> list_all kept (normalize s lang)
   \<Longrightarrow> normalize (normalize s lang) lang = normalize s lang"
  by (rule normalize_idem)

theorem normalize_idempotent_when_kept_witness:
  "keeps_words (ustr ''  E-mail   me! '')
   \<and> list_all kept (normalize (ustr ''  E-mail   me! '') ''hi'')
   \<and> normalize (normalize (ustr ''  E-mail   me! '') ''hi'') ''hi''
       = normalize (ustr ''  E-mail   me! '') ''hi''"
proof -
  have n: "normalize (ustr ''  E-mail   me! '') ''hi'' = ustr ''email me!''"
    by (simp add: eval_simps)
  have w: "keeps_words (ustr ''  E-mail   me! '')"
    by (simp add: keeps_words_def eval_simps)
  have k: "list_all kept (normalize (ustr ''  E-mail   me! '') ''hi'')"
    unfolding n by (simp add: ustr_def kept_ascii kept_32)
  from normalize_idempotent_when_kept [OF w k] w k show ?thesis by simp
qed

text \<open>
  Claim C7 describes the result as the text with its whitespace runs collapsed to single
  spaces, filtered and lower-cased. By that description a leading run of whitespace
  would leave one space at the front; \<open>normalize\<close> leaves none.
\<close>

theorem normalize_described_counterexample:
  "normalize (ustr '' a'') ''hi'' \<noteq> normalize_described (ustr '' a'')"
  by (simp add: eval_simps normalize_described_def)

text \<open>
  Claim C7, amended: for every text and language argument, \<open>normalize\<close> returns the text
  with leading and trailing whitespace removed, the remaining whitespace runs collapsed
  to single spaces, every character other than an alphanumeric, the space and
  \<open>. , ! ? ; :\<close> stripped, and the result lower-cased; the language argument has no
  effect on the output.
\<close>

theorem normalize_is_described_after_strip:
  "normalize text lang = normalize_described (strip text)
   \<and> normalize text lang = normalize text lang'"
  by (simp add: normalize_def normalize_described_def join_split_collapse ustr_def)

section \<open>Properties of the network\<close>

lemma randint_in_range:
  "0 < high \<Longrightarrow> list_all (\<lambda>i. 0 \<le> i \<and> i < int high) (elems (fst (randint rng high sizes)))"
  by (simp add: randint_def Let_def list_all_iff)

lemma randint_dims: "dims (fst (randint rng high sizes)) = sizes"
  by (simp add: randint_def Let_def)

lemma randint_snd: "snd (randint rng high sizes) = (\<lambda>i. rng (i + prod_list sizes))"
  by (simp add: randint_def Let_def)

lemma str_nat_512: "str_nat 512 = ''512''" by (simp add: str_nat.simps)
lemma str_nat_256: "str_nat 256 = ''256''" by (simp add: str_nat.simps)
lemma str_nat_2: "str_nat 2 = ''2''" by (simp add: str_nat.simps)

lemma str_nat_2': "str_nat (Suc (Suc 0)) = ''2''"
  using str_nat_2 by (simp add: numeral_2_eq_2)

lemma encoder_shape:
  assumes "dims x = [1, 150]" "list_all (\<lambda>i. 0 \<le> i \<and> i < 500) (elems x)"
  shows "MultilingualTTSEncoder_forward (MultilingualTTSEncoder_init 500 256 512) x = Inr [1, 150, 512]"
  using assms
  by (simp add: MultilingualTTSEncoder_forward_def MultilingualTTSEncoder_init_def
      Embedding_forward_def LSTM_forward_def Linear_forward_def)

lemma forward_fails:
  assumes "dims x = [1, 150]" "list_all (\<lambda>i. 0 \<le> i \<and> i < 500) (elems x)" "k < 11"
  shows "MultilingualTTS_forward default_model x (tensor [int k]) a s =
     Inl (RuntimeError size_mismatch)"
  using assms(3)
  by (simp add: MultilingualTTS_forward_def default_model_def MultilingualTTS_init_def
      encoder_shape [OF assms(1,2)] Embedding_forward_def tensor_def unsqueeze_def add_shapes_def
      size_mismatch_def str_nat_512 str_nat_256 str_nat_2')

lemma list_index_mem: "x \<in> set xs \<Longrightarrow> \<exists>k < length xs. list_index xs x = Inr k"
  by (induction xs) auto

lemma synthesize_try_started:
  assumes "valid_request request" "model w = Some default_model"
  shows "synthesize_try w request =
     (Inl (RuntimeError size_mismatch), w\<lparr>torch_rng := \<lambda>i. torch_rng w (i + 150)\<rparr>)"
proof -
  from assms(1) obtain k where k: "k < 11" "list_index (map fst LANGUAGES) (TTSRequest.language request) = Inr k"
    using list_index_mem [of "TTSRequest.language request" "map fst LANGUAGES"]
    by (auto simp: valid_request_def LANGUAGES_def)
  obtain x rng where r: "randint (torch_rng w) 500 [1, 150] = (x, rng)" by fastforce
  have x: "dims x = [1, 150]" "list_all (\<lambda>i. 0 \<le> i \<and> i < 500) (elems x)"
    using randint_dims [of "torch_rng w" 500 "[1,150]"] randint_in_range [of 500 "torch_rng w" "[1,150]"] r by auto
  have rng: "rng = (\<lambda>i. torch_rng w (i + 150))"
    using randint_snd [of "torch_rng w" 500 "[1,150]"] r by simp
  show ?thesis
    using assms k
    by (simp add: synthesize_try_def valid_request_def r call_model_def forward_fails [OF x k(1)] rng
        del: One_nat_def)
qed

lemma Linear_shape: "Linear_forward m x = Inr y \<Longrightarrow> x \<noteq> [] \<and> butlast y = butlast x \<and> y \<noteq> []"
  by (auto simp: Linear_forward_def split: if_splits)

lemma LSTM_shape: "LSTM_forward m x = Inr y \<Longrightarrow> butlast y = butlast x \<and> y \<noteq> [] \<and> x \<noteq> []"
  by (auto simp: LSTM_forward_def split: if_splits)

lemma Embedding_shape: "Embedding_forward m x = Inr y \<Longrightarrow> y = dims x @ [embedding_dim m]"
  by (auto simp: Embedding_forward_def split: if_splits)

lemma encoder_forward_shape:
  assumes "MultilingualTTSEncoder_forward m x = Inr y"
  shows "butlast y = dims x \<and> y \<noteq> []"
proof -
  from assms obtain x1 x2 where 1: "Embedding_forward (enc_embedding m) x = Inr x1"
    and 2: "LSTM_forward (enc_lstm m) x1 = Inr x2" and 3: "Linear_forward (enc_linear m) x2 = Inr y"
    by (auto simp: MultilingualTTSEncoder_forward_def split: sum.splits)
  from Embedding_shape [OF 1] LSTM_shape [OF 2] Linear_shape [OF 3] show ?thesis by simp
qed

lemma add_shapes_3_3:
  "add_shapes [b, t, h] [1, 1, e] = Inr y \<Longrightarrow> \<exists>h'. y = [b, t, h']"
  by (auto simp: add_shapes_def split: sum.splits if_splits prod.splits)

lemma transfer_forward_shape:
  assumes "AccentStyleTransferModule_forward m [b, t, h] a s = Inr y"
  shows "butlast y = [b, t] \<and> y \<noteq> []"
proof -
  from assms obtain c h1 where c: "cat_last [[b, t, h], c, h1] = Inr (butlast [b,t,h] @ [sum_list (map last [[b, t, h], c, h1])])" 
    and 1: "Linear_forward (fusion_0 m) (butlast [b,t,h] @ [sum_list (map last [[b, t, h], c, h1])]) = Inr y \<or>
       (\<exists>z. Linear_forward (fusion_0 m) (butlast [b,t,h] @ [sum_list (map last [[b, t, h], c, h1])]) = Inr z \<and> Linear_forward (fusion_2 m) z = Inr y)"
    by (auto simp: AccentStyleTransferModule_forward_def cat_last_def split: sum.splits if_splits)
  from 1 show ?thesis
    by (auto dest!: Linear_shape)
qed

lemma decoder_forward_shape:
  assumes "MultilingualTTSDecoder_forward m x = Inr y"
  shows "butlast y = butlast x \<and> y \<noteq> []"
  using assms
  by (auto simp: MultilingualTTSDecoder_forward_def split: sum.splits dest!: LSTM_shape Linear_shape)

lemma butlast_3: "butlast y = [b, t] \<Longrightarrow> y \<noteq> [] \<Longrightarrow> \<exists>h. y = [b, t, h]"
  by (metis append_butlast_last_id append_Cons append_Nil)

lemma forward_shape:
  assumes "MultilingualTTS_forward m x (tensor [k]) a s = Inr y" "dims x = [1, 150]"
  shows "\<exists>mel. y = [1, 150, mel]"
proof -
  from assms(1) obtain e0 l0 e1 tr where
    1: "MultilingualTTSEncoder_forward (encoder m) x = Inr e0"
    and 2: "Embedding_forward (language_embedding m) (tensor [k]) = Inr l0"
    and 3: "add_shapes e0 (take 1 l0 @ [1] @ drop 1 l0) = Inr e1"
    and 4: "AccentStyleTransferModule_forward (transfer_module m) e1 a s = Inr tr"
    and 5: "MultilingualTTSDecoder_forward (decoder m) tr = Inr y"
    by (auto simp: MultilingualTTS_forward_def unsqueeze_def split: sum.splits if_splits)
  from encoder_forward_shape [OF 1] assms(2) obtain h where e0: "e0 = [1, 150, h]"
    using butlast_3 [of e0 1 150] by auto
  from Embedding_shape [OF 2] have l0: "l0 = [1, embedding_dim (language_embedding m)]"
    by (simp add: tensor_def)
  from 3 e0 l0 obtain h' where e1: "e1 = [1, 150, h']"
    using add_shapes_3_3 [of 1 150 h "embedding_dim (language_embedding m)" e1] by auto
  from transfer_forward_shape [OF 4 [unfolded e1]] obtain h'' where tr: "tr = [1, 150, h'']"
    using butlast_3 [of tr 1 150] by auto
  from decoder_forward_shape [OF 5] tr show ?thesis
    using butlast_3 [of y 1 150] by auto
qed

lemma transfer_ok:
  assumes "0 \<le> a" "a < 5" "0 \<le> s" "s < 3"
  shows "AccentStyleTransferModule_forward (AccentStyleTransferModule_init 512 5 3) [1, 150, 512] (tensor [a]) (tensor [s])
     = Inr [1, 150, 512]"
  using assms
  by (simp add: AccentStyleTransferModule_forward_def AccentStyleTransferModule_init_def
      Embedding_forward_def tensor_def unsqueeze_def expand_def cat_last_def Linear_forward_def)

lemma encoder_shape_wide:
  assumes "dims x = [1, 150]" "list_all (\<lambda>i. 0 \<le> i \<and> i < 500) (elems x)"
  shows "MultilingualTTSEncoder_forward (MultilingualTTSEncoder_init 500 512 512) x = Inr [1, 150, 512]"
  using assms
  by (simp add: MultilingualTTSEncoder_forward_def MultilingualTTSEncoder_init_def
      Embedding_forward_def LSTM_forward_def Linear_forward_def)

lemma forward_ok:
  assumes "dims x = [1, 150]" "list_all (\<lambda>i. 0 \<le> i \<and> i < 500) (elems x)" "k < 11"
    "0 \<le> a" "a < 5" "0 \<le> s" "s < 3"
  shows "MultilingualTTS_forward (MultilingualTTS_init 500 11 5 3 512 512 80) x (tensor [int k]) (tensor [a]) (tensor [s])
     = Inr [1, 150, 80]"
proof -
  have "add_shapes [1, 150, 512] [1, 1, 512] = Inr [1, 150, 512]"
    by (simp add: add_shapes_def)
  then show ?thesis
    using assms(3) transfer_ok [OF assms(4-7)]
    by (simp add: MultilingualTTS_forward_def MultilingualTTS_init_def encoder_shape_wide [OF assms(1,2)]
        Embedding_forward_def tensor_def unsqueeze_def
        MultilingualTTSDecoder_forward_def MultilingualTTSDecoder_init_def LSTM_forward_def Linear_forward_def)
qed

section \<open>Properties of the handlers\<close>

lemma get_inference_try_started:
  assumes "valid_request request" "model w = Some default_model"
  shows "get_inference_try w request =
     (Inl (RuntimeError size_mismatch), w\<lparr>torch_rng := \<lambda>i. torch_rng w (i + 150)\<rparr>)"
proof -
  from assms(1) obtain k where k: "k < 11" "list_index (map fst LANGUAGES) (TTSRequest.language request) = Inr k"
    using list_index_mem [of "TTSRequest.language request" "map fst LANGUAGES"]
    by (auto simp: valid_request_def LANGUAGES_def)
  obtain x rng where r: "randint (torch_rng w) 500 [1, 150] = (x, rng)" by fastforce
  have x: "dims x = [1, 150]" "list_all (\<lambda>i. 0 \<le> i \<and> i < 500) (elems x)"
    using randint_dims [of "torch_rng w" 500 "[1,150]"] randint_in_range [of 500 "torch_rng w" "[1,150]"] r by auto
  have rng: "rng = (\<lambda>i. torch_rng w (i + 150))"
    using randint_snd [of "torch_rng w" 500 "[1,150]"] r by simp
  show ?thesis
    using assms k
    by (simp add: get_inference_try_def valid_request_def r call_model_def forward_fails [OF x k(1)] rng
        del: One_nat_def)
qed

lemma started_model: "model (startup_event None w) = Some default_model"
  and started_loaded: "model_loaded (startup_event None w)"
  by (simp_all add: startup_event_def)

lemma synthesize_started:
  "valid_request request \<Longrightarrow>
   synthesize (startup_event None w) request =
     (HTTPError 500 size_mismatch,
      (startup_event None w)\<lparr>torch_rng := \<lambda>i. torch_rng w (i + 150)\<rparr>)"
  by (simp add: synthesize_def started_loaded synthesize_try_started [OF _ started_model])
     (simp add: startup_event_def)

lemma get_inference_started:
  "valid_request request \<Longrightarrow>
   get_inference (startup_event None w) request =
     (HTTPError 500 size_mismatch,
      (startup_event None w)\<lparr>torch_rng := \<lambda>i. torch_rng w (i + 150)\<rparr>)"
  by (simp add: get_inference_def started_loaded get_inference_try_started [OF _ started_model])
     (simp add: startup_event_def)

lemma synthesize_invalid:
  "model_loaded w \<Longrightarrow> \<not> valid_request request \<Longrightarrow>
   \<exists>detail. synthesize w request = (HTTPError 500 (str_exn (HTTPException 400 detail)), w)"
  by (auto simp: synthesize_def synthesize_try_def valid_request_def)

lemma get_inference_invalid:
  "model_loaded w \<Longrightarrow> \<not> valid_request request \<Longrightarrow>
   \<exists>detail. get_inference w request = (HTTPError 500 (str_exn (HTTPException 400 detail)), w)"
  by (auto simp: get_inference_def get_inference_try_def valid_request_def)

lemma mkdir_outputs: "\<exists>d. outputs (mkdir_exist_ok w) = Some d"
  by (simp add: mkdir_exist_ok_def split: option.splits)

lemma mkdir_fields:
  "now (mkdir_exist_ok w) = now w" "numpy_rng (mkdir_exist_ok w) = numpy_rng w"
  by (simp_all add: mkdir_exist_ok_def split: option.splits)

lemma endpoint_try_success:
  assumes "endpoint_try prefix msg w request = (Inr r, w')"
  shows "r = \<lparr>status = ''success'', message = msg,
              audio_url = Some (''/audio/'' @ prefix @ now w @ ''.wav''),
              duration = Some (38400 / 22050),
              language = TTSRequest.language request,
              accent_id = TTSRequest.accent_id request,
              style_id = TTSRequest.style_id request\<rparr>
       \<and> valid_request request
       \<and> lookup_output w' (prefix @ now w @ ''.wav'')
           = Some \<lparr>samples = map (numpy_rng w) [0..<38400], samplerate = 22050\<rparr>"
proof -
  obtain x rng where ri: "randint (torch_rng w) 500 [1, 150] = (x, rng)" by fastforce
  have x: "dims x = [1, 150]" using randint_dims [of "torch_rng w" 500 "[1,150]"] ri by simp
  define w1 where "w1 = w\<lparr>torch_rng := rng\<rparr>"
  define w2 where "w2 = mkdir_exist_ok w1"
  from assms have v: "valid_request request"
    by (auto simp: endpoint_try_def valid_request_def split: if_splits)
  from assms v ri obtain k mel_spec where
    k: "list_index (map fst LANGUAGES) (TTSRequest.language request) = Inr k"
    and m: "call_model (model w) x (tensor [int k]) (tensor [TTSRequest.accent_id request])
              (tensor [TTSRequest.style_id request]) = Inr mel_spec"
    by (auto simp: endpoint_try_def valid_request_def w1_def Let_def split: sum.splits simp del: One_nat_def)
  from m obtain net where "MultilingualTTS_forward net x (tensor [int k])
      (tensor [TTSRequest.accent_id request]) (tensor [TTSRequest.style_id request]) = Inr mel_spec"
    by (auto simp: call_model_def split: option.splits)
  from forward_shape [OF this x] obtain mel where mel: "mel_spec = [1, 150, mel]" by blast
  obtain d where d: "outputs w2 = Some d" using mkdir_outputs [of w1] by (auto simp: w2_def)
  have n: "now w2 = now w" "numpy_rng w2 = numpy_rng w"
    by (simp_all add: w2_def w1_def mkdir_fields)
  from assms v ri k m mel d n show ?thesis
    by (simp add: endpoint_try_def valid_request_def w1_def [symmetric] w2_def [symmetric]
        index0_def shape0_def randn_def sf_write_def lookup_output_def del: One_nat_def)
       (auto simp: lookup_output_def Let_def)
qed

lemma endpoint_try_succeeds:
  assumes "valid_request request" "model w = Some (MultilingualTTS_init 500 11 5 3 512 512 80)"
  shows "\<exists>r w'. endpoint_try prefix msg w request = (Inr r, w')"
proof -
  from assms(1) obtain k where k: "k < 11" "list_index (map fst LANGUAGES) (TTSRequest.language request) = Inr k"
    using list_index_mem [of "TTSRequest.language request" "map fst LANGUAGES"]
    by (auto simp: valid_request_def LANGUAGES_def)
  obtain x rng where r: "randint (torch_rng w) 500 [1, 150] = (x, rng)" by fastforce
  have x: "dims x = [1, 150]" "list_all (\<lambda>i. 0 \<le> i \<and> i < 500) (elems x)"
    using randint_dims [of "torch_rng w" 500 "[1,150]"] randint_in_range [of 500 "torch_rng w" "[1,150]"] r by auto
  from assms(1) have v: "0 \<le> TTSRequest.accent_id request" "TTSRequest.accent_id request < 5"
    "0 \<le> TTSRequest.style_id request" "TTSRequest.style_id request < 3"
    by (simp_all add: valid_request_def)
  obtain d where d: "outputs (mkdir_exist_ok (w\<lparr>torch_rng := rng\<rparr>)) = Some d"
    using mkdir_outputs by blast
  show ?thesis
    using assms k d
    by (simp add: endpoint_try_def valid_request_def r call_model_def forward_ok [OF x k(1) v]
        index0_def shape0_def randn_def sf_write_def Let_def
        del: One_nat_def)
qed

lemma synthesize_try_endpoint:
  "synthesize_try w request = endpoint_try ''tts_'' ''Speech synthesized successfully'' w request"
  by (simp add: synthesize_try_def endpoint_try_def)

lemma get_inference_try_endpoint:
  "get_inference_try w request = endpoint_try ''inference_'' ''Inference completed successfully'' w request"
  by (simp add: get_inference_try_def endpoint_try_def)

text \<open>
  Whenever \<open>synthesize\<close> does return a response, it is the response the return statement
  describes: status \<open>success\<close>, the parameters of the request, a duration of
  \<open>150 * 256 / 22050\<close> seconds, and the URL of the file that now holds \<open>150 * 256\<close>
  samples at 22050 Hz.
\<close>

lemma synthesize_success:
  assumes "synthesize w request = (OK r, w')"
  shows "r = \<lparr>status = ''success'', message = ''Speech synthesized successfully'',
              audio_url = Some (''/audio/tts_'' @ now w @ ''.wav''),
              duration = Some (150 * 256 / 22050),
              language = TTSRequest.language request,
              accent_id = TTSRequest.accent_id request,
              style_id = TTSRequest.style_id request\<rparr>
       \<and> lookup_output w' (''tts_'' @ now w @ ''.wav'')
           = Some \<lparr>samples = map (numpy_rng w) [0..<150 * 256], samplerate = 22050\<rparr>"
proof -
  from assms have "endpoint_try ''tts_'' ''Speech synthesized successfully'' w request = (Inr r, w')"
    by (auto simp: synthesize_def synthesize_try_endpoint split: if_splits sum.splits prod.splits)
  from endpoint_try_success [OF this] show ?thesis by simp
qed

text \<open>
  That case does occur for a network whose language embedding is as wide as the output
  of its encoder.
\<close>

lemma synthesize_succeeds_for_equal_widths:
  assumes "valid_request request" "model_loaded w"
    "model w = Some (MultilingualTTS_init 500 11 5 3 512 512 80)"
  shows "\<exists>r w'. synthesize w request = (OK r, w')"
  using endpoint_try_succeeds [OF assms(1,3), of "''tts_''" "''Speech synthesized successfully''"] assms(2)
  by (auto simp: synthesize_def synthesize_try_endpoint)

lemma get_inference_success:
  assumes "get_inference w request = (OK r, w')"
  shows "r = \<lparr>status = ''success'', message = ''Inference completed successfully'',
              audio_url = Some (''/audio/inference_'' @ now w @ ''.wav''),
              duration = Some (150 * 256 / 22050),
              language = TTSRequest.language request,
              accent_id = TTSRequest.accent_id request,
              style_id = TTSRequest.style_id request\<rparr>
       \<and> lookup_output w' (''inference_'' @ now w @ ''.wav'')
           = Some \<lparr>samples = map (numpy_rng w) [0..<150 * 256], samplerate = 22050\<rparr>"
proof -
  from assms have "endpoint_try ''inference_'' ''Inference completed successfully'' w request = (Inr r, w')"
    by (auto simp: get_inference_def get_inference_try_endpoint split: if_splits sum.splits prod.splits)
  from endpoint_try_success [OF this] show ?thesis by simp
qed

lemma get_inference_succeeds_for_equal_widths:
  assumes "valid_request request" "model_loaded w"
    "model w = Some (MultilingualTTS_init 500 11 5 3 512 512 80)"
  shows "\<exists>r w'. get_inference w request = (OK r, w')"
  using endpoint_try_succeeds [OF assms(1,3), of "''inference_''" "''Inference completed successfully''"] assms(2)
  by (auto simp: get_inference_def get_inference_try_endpoint)

text \<open>The outcome of the endpoint does not depend on the prefix and the message otherwise.\<close>

lemma sf_write_after_mkdir:
  "sf_write ((mkdir_exist_ok w)\<lparr>numpy_rng := g\<rparr>) name audio rate =
     Inr ((mkdir_exist_ok w)\<lparr>numpy_rng := g,
            outputs := Some ((case outputs w of None \<Rightarrow> Map.empty | Some d \<Rightarrow> d)
                               (name \<mapsto> \<lparr>samples = audio, samplerate = rate\<rparr>))\<rparr>)"
  by (simp add: sf_write_def mkdir_exist_ok_def split: option.splits)

lemma endpoint_try_labels:
  "map_sum id unlabelled (fst (endpoint_try p m w request)) = map_sum id unlabelled (fst (endpoint_try p' m' w request))
   \<and> (snd (endpoint_try p m w request))\<lparr>outputs := None\<rparr> = (snd (endpoint_try p' m' w request))\<lparr>outputs := None\<rparr>"
  unfolding endpoint_try_def Let_def
  by (auto simp: unlabelled_def randn_def sf_write_after_mkdir split: sum.splits prod.splits)

lemma endpoint_labels:
  "map_http unlabelled (fst (endpoint p m w request)) = map_http unlabelled (fst (endpoint p' m' w request))
   \<and> (snd (endpoint p m w request))\<lparr>outputs := None\<rparr> = (snd (endpoint p' m' w request))\<lparr>outputs := None\<rparr>"
proof (cases "model_loaded w")
  case False
  then show ?thesis by (simp add: endpoint_def)
next
  case True
  obtain a w1 where 1: "endpoint_try p m w request = (a, w1)" by fastforce
  obtain b w2 where 2: "endpoint_try p' m' w request = (b, w2)" by fastforce
  from endpoint_try_labels [of p m w request p' m'] 1 2
  have "map_sum id unlabelled a = map_sum id unlabelled b" "w1\<lparr>outputs := None\<rparr> = w2\<lparr>outputs := None\<rparr>"
    by simp_all
  then show ?thesis using True 1 2
    by (cases a; cases b) (simp_all add: endpoint_def)
qed

lemma endpoint_artifact:
  "artifact p w (endpoint p m w request) = artifact p' w (endpoint p' m' w request)"
proof (cases "model_loaded w")
  case False
  then show ?thesis by (simp add: endpoint_def artifact_def)
next
  case True
  obtain a w1 where 1: "endpoint_try p m w request = (a, w1)" by fastforce
  obtain b w2 where 2: "endpoint_try p' m' w request = (b, w2)" by fastforce
  from endpoint_try_labels [of p m w request p' m'] 1 2
  have ab: "map_sum id unlabelled a = map_sum id unlabelled b" by simp
  show ?thesis
  proof (cases a)
    case (Inl e)
    with ab obtain e' where "b = Inl e'" by (cases b) auto
    with Inl True 1 2 show ?thesis by (simp add: endpoint_def artifact_def)
  next
    case (Inr r)
    with ab obtain r' where r': "b = Inr r'" by (cases b) auto
    from endpoint_try_success [of p m w request r w1] 1 Inr
    have "lookup_output w1 (p @ now w @ ''.wav'')
            = Some \<lparr>samples = map (numpy_rng w) [0..<38400], samplerate = 22050\<rparr>" by simp
    moreover from endpoint_try_success [of p' m' w request r' w2] 2 r'
    have "lookup_output w2 (p' @ now w @ ''.wav'')
            = Some \<lparr>samples = map (numpy_rng w) [0..<38400], samplerate = 22050\<rparr>" by simp
    ultimately show ?thesis using Inr r' True 1 2 by (simp add: endpoint_def artifact_def)
  qed
qed

lemma synthesize_endpoint:
  "synthesize w request = endpoint ''tts_'' ''Speech synthesized successfully'' w request"
  by (simp add: synthesize_def endpoint_def synthesize_try_endpoint)

lemma get_inference_endpoint:
  "get_inference w request = endpoint ''inference_'' ''Inference completed successfully'' w request"
  by (simp add: get_inference_def endpoint_def get_inference_try_endpoint)

section \<open>Claims about the handlers\<close>

text \<open>
  Claim C1 says that a request with an unsupported language code, sent while the model
  is loaded, is rejected with status 400. The handlers raise that \<open>HTTPException\<close>
  inside their \<open>try\<close> statement, whose \<open>except Exception\<close> clause catches it and raises
  status 500 in its place. Here the two handlers are run after startup on the request
  with the language code \<open>xx\<close>: both answer 500.
\<close>

theorem unsupported_language_answered_500:
  "status_code (fst (synthesize (startup_event None w)
      \<lparr>text' = ustr ''Hello'', language = ''xx'', accent_id = 0, style_id = 0, speaker_id = None\<rparr>)) = 500
   \<and> status_code (fst (get_inference (startup_event None w)
      \<lparr>text' = ustr ''Hello'', language = ''xx'', accent_id = 0, style_id = 0, speaker_id = None\<rparr>)) = 500"
proof -
  let ?r = "\<lparr>text' = ustr ''Hello'', language = ''xx'', accent_id = 0, style_id = 0, speaker_id = None\<rparr>"
  have "\<not> valid_request ?r" by (simp add: valid_request_def LANGUAGES_def)
  then show ?thesis
    using synthesize_invalid [OF started_loaded, of ?r w] get_inference_invalid [OF started_loaded, of ?r w]
    by auto
qed

text \<open>
  Claim C2 says that a request with \<open>accent_id\<close> outside \<open>[0,5)\<close> or \<open>style_id\<close> outside
  \<open>[0,3)\<close>, sent while the model is loaded, is rejected with status 400. For the same
  reason as in C1 the answer is 500: here for \<open>accent_id = 7\<close> with a supported
  language, on both handlers, and for \<open>style_id = 3\<close>.
\<close>

theorem out_of_range_ids_answered_500:
  "status_code (fst (synthesize (startup_event None w)
      \<lparr>text' = ustr ''Hello'', language = ''hi'', accent_id = 7, style_id = 0, speaker_id = None\<rparr>)) = 500
   \<and> status_code (fst (get_inference (startup_event None w)
      \<lparr>text' = ustr ''Hello'', language = ''hi'', accent_id = 7, style_id = 0, speaker_id = None\<rparr>)) = 500
   \<and> status_code (fst (synthesize (startup_event None w)
      \<lparr>text' = ustr ''Hello'', language = ''hi'', accent_id = 0, style_id = 3, speaker_id = None\<rparr>)) = 500"
proof -
  let ?a = "\<lparr>text' = ustr ''Hello'', language = ''hi'', accent_id = 7, style_id = 0, speaker_id = None\<rparr>"
  let ?s = "\<lparr>text' = ustr ''Hello'', language = ''hi'', accent_id = 0, style_id = 3, speaker_id = None\<rparr>"
  have "\<not> valid_request ?a" "\<not> valid_request ?s" by (simp_all add: valid_request_def)
  then show ?thesis
    using synthesize_invalid [OF started_loaded, of ?a w] get_inference_invalid [OF started_loaded, of ?a w]
      synthesize_invalid [OF started_loaded, of ?s w]
    by auto
qed

text \<open>
  Claim C3: every valid request that either handler completes while the model is loaded
  is answered with the duration \<open>(150 * 256) / 22050\<close> seconds, whatever its text.
\<close>

theorem successful_synthesis_duration:
  assumes "valid_request request" "model_loaded w"
  shows "(synthesize w request = (OK r, w') \<longrightarrow> duration r = Some ((150 * 256) / 22050))
       \<and> (get_inference w request = (OK r, w') \<longrightarrow> duration r = Some ((150 * 256) / 22050))"
  using synthesize_success [of w request r w'] get_inference_success [of w request r w']
  by auto

theorem successful_synthesis_duration_witness:
  "valid_request hello_request \<and> model_loaded wide_world
   \<and> (\<exists>r w'. synthesize wide_world hello_request = (OK r, w')
          \<and> duration r = Some ((150 * 256) / 22050))
   \<and> (\<exists>r w'. get_inference wide_world hello_request = (OK r, w')
          \<and> duration r = Some ((150 * 256) / 22050))"
proof -
  have v: "valid_request hello_request"
    by (simp add: valid_request_def hello_request_def LANGUAGES_def)
  have l: "model_loaded wide_world" by (simp add: wide_world_def)
  have m: "model wide_world = Some (MultilingualTTS_init 500 11 5 3 512 512 80)"
    by (simp add: wide_world_def)
  from synthesize_succeeds_for_equal_widths [OF v l m]
  obtain r1 w1 where s: "synthesize wide_world hello_request = (OK r1, w1)" by blast
  from get_inference_succeeds_for_equal_widths [OF v l m]
  obtain r2 w2 where g: "get_inference wide_world hello_request = (OK r2, w2)" by blast
  from successful_synthesis_duration [OF v l, of r1 w1] s
  have d1: "duration r1 = Some ((150 * 256) / 22050)" by blast
  from successful_synthesis_duration [OF v l, of r2 w2] g
  have d2: "duration r2 = Some ((150 * 256) / 22050)" by blast
  from v l s g d1 d2 show ?thesis by blast
qed

text \<open>
  After startup, however, the handlers complete no valid request: the forward pass of
  the default model adds the language embedding, 256 wide, to the encoder output, 512
  wide, torch raises, and the answer is the error 500 with the message of that exception
  (\<open>synthesize_started\<close> and \<open>get_inference_started\<close> above). On the request of the
  specification's example:
\<close>

lemma started_example_answered_500:
  "fst (synthesize (startup_event None w)
      \<lparr>text' = t, language = ''hi'', accent_id = 0, style_id = 0, speaker_id = None\<rparr>)
     = HTTPError 500 size_mismatch
   \<and> fst (get_inference (startup_event None w)
      \<lparr>text' = t, language = ''hi'', accent_id = 0, style_id = 0, speaker_id = None\<rparr>)
     = HTTPError 500 size_mismatch"
proof -
  let ?r = "\<lparr>text' = t, language = ''hi'', accent_id = 0, style_id = 0, speaker_id = None\<rparr>"
  have "valid_request ?r" by (simp add: valid_request_def LANGUAGES_def)
  then show ?thesis
    using synthesize_started [of ?r w] get_inference_started [of ?r w] by simp
qed

text \<open>
  Claim C5: while the model is not loaded, both handlers answer 503 whatever the
  request, and leave the state as it was: nothing is drawn, nothing is written.
\<close>

theorem model_not_loaded_gives_503:
  "\<not> model_loaded w \<Longrightarrow>
   synthesize w request = (HTTPError 503 ''Model not loaded'', w)
   \<and> get_inference w request = (HTTPError 503 ''Model not loaded'', w)"
  by (simp add: synthesize_def get_inference_def)

theorem model_not_loaded_gives_503_witness:
  "\<not> model_loaded idle_world
   \<and> synthesize idle_world hello_request = (HTTPError 503 ''Model not loaded'', idle_world)
   \<and> get_inference idle_world hello_request = (HTTPError 503 ''Model not loaded'', idle_world)"
proof -
  have n: "\<not> model_loaded idle_world" by (simp add: idle_world_def)
  show ?thesis using n model_not_loaded_gives_503 [OF n, of hello_request] by simp
qed

text \<open>
  Claim C6: once the model is loaded, every exception that the body of the \<open>try\<close>
  statement raises is answered with status 500, and the detail is the text of the
  exception as \<open>str\<close> gives it.
\<close>

theorem exception_in_synthesis_gives_500:
  assumes "model_loaded w"
  shows "(synthesize_try w request = (Inl e, w')
            \<longrightarrow> synthesize w request = (HTTPError 500 (str_exn e), w'))
       \<and> (get_inference_try w request = (Inl e, w')
            \<longrightarrow> get_inference w request = (HTTPError 500 (str_exn e), w'))"
  using assms by (simp add: synthesize_def get_inference_def)

theorem exception_in_synthesis_gives_500_witness:
  "model_loaded (startup_event None idle_world)
   \<and> synthesize_try (startup_event None idle_world) hello_request
       = (Inl (RuntimeError size_mismatch), (startup_event None idle_world)\<lparr>torch_rng := \<lambda>i. i + 150\<rparr>)
   \<and> synthesize (startup_event None idle_world) hello_request
       = (HTTPError 500 size_mismatch, (startup_event None idle_world)\<lparr>torch_rng := \<lambda>i. i + 150\<rparr>)
   \<and> get_inference_try (startup_event None idle_world) hello_request
       = (Inl (RuntimeError size_mismatch), (startup_event None idle_world)\<lparr>torch_rng := \<lambda>i. i + 150\<rparr>)
   \<and> get_inference (startup_event None idle_world) hello_request
       = (HTTPError 500 size_mismatch, (startup_event None idle_world)\<lparr>torch_rng := \<lambda>i. i + 150\<rparr>)"
proof -
  let ?w = "startup_event None idle_world"
  let ?w' = "?w\<lparr>torch_rng := \<lambda>i. i + 150\<rparr>"
  have l: "model_loaded ?w" by (rule started_loaded)
  have v: "valid_request hello_request"
    by (simp add: valid_request_def hello_request_def LANGUAGES_def)
  have t: "torch_rng ?w = (\<lambda>i. i)" by (simp add: startup_event_def idle_world_def)
  have s: "synthesize_try ?w hello_request = (Inl (RuntimeError size_mismatch), ?w')"
    using synthesize_try_started [OF v started_model, of idle_world] t by simp
  have g: "get_inference_try ?w hello_request = (Inl (RuntimeError size_mismatch), ?w')"
    using get_inference_try_started [OF v started_model, of idle_world] t by simp
  from exception_in_synthesis_gives_500 [OF l, of hello_request "RuntimeError size_mismatch" ?w'] s g l
  show ?thesis by simp
qed

text \<open>
  Claim C8 says that \<open>get_audio\<close> answers 404 when no file of the name asked for exists
  under the output directory. The handler asks whether the path exists, not whether it
  is a file: for the name \<open>..\<close> the path is the parent of the directory, no file of that
  name is there, and the answer is 500, not 404.
\<close>

theorem get_audio_dotdot_answered_500:
  "lookup_output stocked_world ''..'' = None
   \<and> get_audio stocked_world ''..'' = HTTPError 500 ''Internal Server Error''"
  by (simp add: get_audio_def stat_output_def lookup_output_def stocked_world_def)

text \<open>
  For every other name the handler does what the claim says.
\<close>

lemma get_audio_regular_names:
  assumes "filename \<notin> set [[], ''.'', ''..'']"
  shows "(lookup_output w filename = None
            \<longrightarrow> get_audio w filename = HTTPError 404 ''Audio file not found'')
       \<and> (lookup_output w filename = Some f
            \<longrightarrow> get_audio w filename
                = OK \<lparr>path = ''outputs/'' @ filename, media_type = ''audio/wav'', content = f\<rparr>)"
  using assms
  by (auto simp: get_audio_def stat_output_def lookup_output_def split: option.splits)

text \<open>
  Claim C9: every valid request that either handler completes while the model is loaded
  is answered with status \<open>success\<close>, with the language, \<open>accent_id\<close> and \<open>style_id\<close> of
  the request, and with the URL of the artifact: the file of that name is in the
  directory afterwards, and \<open>get_audio\<close> returns it.
\<close>

theorem successful_synthesis_echoes_request:
  assumes "valid_request request" "model_loaded w"
  shows "(synthesize w request = (OK r, w') \<longrightarrow>
            status r = ''success''
            \<and> TTSResponse.language r = TTSRequest.language request
            \<and> TTSResponse.accent_id r = TTSRequest.accent_id request
            \<and> TTSResponse.style_id r = TTSRequest.style_id request
            \<and> audio_url r = Some (''/audio/'' @ ''tts_'' @ now w @ ''.wav'')
            \<and> (\<exists>f. lookup_output w' (''tts_'' @ now w @ ''.wav'') = Some f
                  \<and> get_audio w' (''tts_'' @ now w @ ''.wav'')
                      = OK \<lparr>path = ''outputs/'' @ ''tts_'' @ now w @ ''.wav'',
                             media_type = ''audio/wav'', content = f\<rparr>))
       \<and> (get_inference w request = (OK r, w') \<longrightarrow>
            status r = ''success''
            \<and> TTSResponse.language r = TTSRequest.language request
            \<and> TTSResponse.accent_id r = TTSRequest.accent_id request
            \<and> TTSResponse.style_id r = TTSRequest.style_id request
            \<and> audio_url r = Some (''/audio/'' @ ''inference_'' @ now w @ ''.wav'')
            \<and> (\<exists>f. lookup_output w' (''inference_'' @ now w @ ''.wav'') = Some f
                  \<and> get_audio w' (''inference_'' @ now w @ ''.wav'')
                      = OK \<lparr>path = ''outputs/'' @ ''inference_'' @ now w @ ''.wav'',
                             media_type = ''audio/wav'', content = f\<rparr>))"
proof -
  have a: "get_audio w' (p # ps) = OK \<lparr>path = ''outputs/'' @ p # ps, media_type = ''audio/wav'', content = f\<rparr>"
    if "lookup_output w' (p # ps) = Some f" "p \<noteq> CHR ''.''" for p ps f
    using that by (auto simp: get_audio_def stat_output_def lookup_output_def split: option.splits)
  show ?thesis
    using synthesize_success [of w request r w'] get_inference_success [of w request r w']
      a [of "CHR ''t''" "''ts_'' @ now w @ ''.wav''"] a [of "CHR ''i''" "''nference_'' @ now w @ ''.wav''"]
    by auto
qed

theorem successful_synthesis_echoes_request_witness:
  "valid_request hello_request \<and> model_loaded wide_world
   \<and> (\<exists>r w'. synthesize wide_world hello_request = (OK r, w')
          \<and> status r = ''success''
          \<and> TTSResponse.language r = ''hi''
          \<and> TTSResponse.accent_id r = 0
          \<and> TTSResponse.style_id r = 0
          \<and> audio_url r = Some ''/audio/tts_20240101_120000.wav''
          \<and> (\<exists>f. lookup_output w' ''tts_20240101_120000.wav'' = Some f))
   \<and> (\<exists>r w'. get_inference wide_world hello_request = (OK r, w')
          \<and> status r = ''success''
          \<and> TTSResponse.language r = ''hi''
          \<and> TTSResponse.accent_id r = 0
          \<and> TTSResponse.style_id r = 0
          \<and> audio_url r = Some ''/audio/inference_20240101_120000.wav''
          \<and> (\<exists>f. lookup_output w' ''inference_20240101_120000.wav'' = Some f))"
proof -
  have v: "valid_request hello_request"
    by (simp add: valid_request_def hello_request_def LANGUAGES_def)
  have l: "model_loaded wide_world" by (simp add: wide_world_def)
  have m: "model wide_world = Some (MultilingualTTS_init 500 11 5 3 512 512 80)"
    by (simp add: wide_world_def)
  have n: "now wide_world = ''20240101_120000''" by (simp add: wide_world_def idle_world_def)
  have h: "TTSRequest.language hello_request = ''hi''" "TTSRequest.accent_id hello_request = 0"
    "TTSRequest.style_id hello_request = 0" by (simp_all add: hello_request_def)
  from synthesize_succeeds_for_equal_widths [OF v l m]
  obtain r1 w1 where s: "synthesize wide_world hello_request = (OK r1, w1)" by blast
  from get_inference_succeeds_for_equal_widths [OF v l m]
  obtain r2 w2 where g: "get_inference wide_world hello_request = (OK r2, w2)" by blast
  from successful_synthesis_echoes_request [OF v l, of r1 w1] s n h
  have 1: "status r1 = ''success'' \<and> TTSResponse.language r1 = ''hi''
      \<and> TTSResponse.accent_id r1 = 0 \<and> TTSResponse.style_id r1 = 0
      \<and> audio_url r1 = Some ''/audio/tts_20240101_120000.wav''
      \<and> (\<exists>f. lookup_output w1 ''tts_20240101_120000.wav'' = Some f)"
    by auto
  from successful_synthesis_echoes_request [OF v l, of r2 w2] g n h
  have 2: "status r2 = ''success'' \<and> TTSResponse.language r2 = ''hi''
      \<and> TTSResponse.accent_id r2 = 0 \<and> TTSResponse.style_id r2 = 0
      \<and> audio_url r2 = Some ''/audio/inference_20240101_120000.wav''
      \<and> (\<exists>f. lookup_output w2 ''inference_20240101_120000.wav'' = Some f)"
    by auto
  from v l s g 1 2 show ?thesis by blast
qed

text \<open>
  Claim C10: the two handlers are one function of the request and the state, up to the
  prefix of the file name (\<open>tts_\<close> or \<open>inference_\<close>) and the message of the response.
  Both are the endpoint above at their own prefix and message; on equal requests and
  states they give the same error or the same response but for message and URL, leave
  the same state but for the directory, and write the same samples under their own file
  name.
\<close>

theorem handlers_are_one_endpoint:
  "synthesize w request = endpoint ''tts_'' ''Speech synthesized successfully'' w request
   \<and> get_inference w request
       = endpoint ''inference_'' ''Inference completed successfully'' w request
   \<and> map_http unlabelled (fst (get_inference w request))
       = map_http unlabelled (fst (synthesize w request))
   \<and> (snd (get_inference w request))\<lparr>outputs := None\<rparr>
       = (snd (synthesize w request))\<lparr>outputs := None\<rparr>
   \<and> artifact ''inference_'' w (get_inference w request)
       = artifact ''tts_'' w (synthesize w request)"
  using endpoint_labels [of "''inference_''" "''Inference completed successfully''" w request
      "''tts_''" "''Speech synthesized successfully''"]
    endpoint_artifact [of "''inference_''" w "''Inference completed successfully''" request
      "''tts_''" "''Speech synthesized successfully''"]
  by (simp add: synthesize_endpoint get_inference_endpoint)

end
